theory Spec2Isabelle
  imports Main
begin

section \<open>JavaScript values and strings\<close>

text \<open>
  The dashboard is TypeScript running in a browser. A value of type \<^verbatim>\<open>number\<close> is \<^verbatim>\<open>NaN\<close>,
  an infinity, or a finite number, which is written \<open>Dec m e\<close> for \<open>m\<close> times ten to the
  \<open>e\<close>: a finite number is identified by the decimal that \<^verbatim>\<open>toString\<close> prints for it,
  the shortest one that reads back as the same number, and it is this decimal that stands
  for the number (\<open>Whole i\<close> is the integer \<open>i\<close>; zero is \<open>Dec 0 e\<close>, with either sign).
  Strings are UTF-8 byte strings.
\<close>

datatype number = NaN | PosInfinity | NegInfinity | Dec int int

abbreviation Whole :: "int \<Rightarrow> number" where
  "Whole i \<equiv> Dec i 0"

text \<open>
  Values that arrive over the wire are produced by \<^verbatim>\<open>JSON.parse\<close> and typed \<^verbatim>\<open>any\<close>, so
  they are modelled by one datatype of JavaScript values. \<open>Undefined\<close> is what reading a
  missing property gives.
\<close>

datatype jsval =
    Undefined
  | Null
  | Bool bool
  | Num number
  | Str string
  | Arr "jsval list"
  | Obj "(string \<times> jsval) list"

text \<open>
  The exceptions of the program, each with its message. A \<^verbatim>\<open>fetch\<close> that fails on the
  network rejects with a TypeError; \<^verbatim>\<open>APIError\<close> is the class of \<^verbatim>\<open>lib/api.ts\<close>
  with its \<^verbatim>\<open>status\<close> field.
\<close>

datatype js_error =
    TypeError string
  | SyntaxError string
  | RangeError string
  | APIError nat string

fun message :: "js_error \<Rightarrow> string" where
  "message (TypeError m) = m"
| "message (SyntaxError m) = m"
| "message (RangeError m) = m"
| "message (APIError st m) = m"

text \<open>ToBoolean: \<^verbatim>\<open>undefined\<close>, \<^verbatim>\<open>null\<close>, \<^verbatim>\<open>false\<close>, \<^verbatim>\<open>0\<close>, \<^verbatim>\<open>NaN\<close> and \<^verbatim>\<open>""\<close> are
  falsy.\<close>

fun number_truthy :: "number \<Rightarrow> bool" where
  "number_truthy NaN = False"
| "number_truthy PosInfinity = True"
| "number_truthy NegInfinity = True"
| "number_truthy (Dec m e) = (m \<noteq> 0)"

fun truthy :: "jsval \<Rightarrow> bool" where
  "truthy Undefined = False"
| "truthy Null = False"
| "truthy (Bool b) = b"
| "truthy (Num n) = number_truthy n"
| "truthy (Str s) = (s \<noteq> [])"
| "truthy (Arr xs) = True"
| "truthy (Obj kvs) = True"

text \<open>
  Reading a property \<^verbatim>\<open>v.name\<close>: a TypeError on \<^verbatim>\<open>undefined\<close> and \<^verbatim>\<open>null\<close>,
  the stored value on an object that has the property (the last one, where the JSON text
  repeats a name), \<^verbatim>\<open>undefined\<close> otherwise (the names read through \<open>lookup\<close> are no
  built-in property of a primitive or an array).
\<close>

fun nullish :: "jsval \<Rightarrow> bool" where
  "nullish Undefined = True"
| "nullish Null = True"
| "nullish v = False"

fun lookup :: "jsval \<Rightarrow> string \<Rightarrow> jsval" where
  "lookup (Obj kvs) name = (case map_of (rev kvs) name of None \<Rightarrow> Undefined | Some v \<Rightarrow> v)"
| "lookup v name = Undefined"

definition cannot_read :: js_error where
  "cannot_read = TypeError ''Cannot read properties of undefined''"

definition get_prop :: "jsval \<Rightarrow> string \<Rightarrow> js_error + jsval" where
  "get_prop v name = (if nullish v then Inl cannot_read else Inr (lookup v name))"

subsection \<open>White space\<close>

text \<open>
  The characters that \<^verbatim>\<open>String.prototype.trim\<close> and \<^verbatim>\<open>parseInt\<close> skip, in UTF-8:
  TAB, LF, VT, FF, CR, SP, U+00A0, U+1680, U+2000 to U+200A, U+2028, U+2029, U+202F,
  U+205F, U+3000 and U+FEFF.
\<close>

definition white_space :: "string list" where
  "white_space =
     [[CHR 0x09], [CHR 0x0A], [CHR 0x0B], [CHR 0x0C], [CHR 0x0D], [CHR 0x20],
      [CHR 0xC2, CHR 0xA0], [CHR 0xE1, CHR 0x9A, CHR 0x80],
      [CHR 0xE2, CHR 0x80, CHR 0x80], [CHR 0xE2, CHR 0x80, CHR 0x81],
      [CHR 0xE2, CHR 0x80, CHR 0x82], [CHR 0xE2, CHR 0x80, CHR 0x83],
      [CHR 0xE2, CHR 0x80, CHR 0x84], [CHR 0xE2, CHR 0x80, CHR 0x85],
      [CHR 0xE2, CHR 0x80, CHR 0x86], [CHR 0xE2, CHR 0x80, CHR 0x87],
      [CHR 0xE2, CHR 0x80, CHR 0x88], [CHR 0xE2, CHR 0x80, CHR 0x89],
      [CHR 0xE2, CHR 0x80, CHR 0x8A], [CHR 0xE2, CHR 0x80, CHR 0xA8],
      [CHR 0xE2, CHR 0x80, CHR 0xA9], [CHR 0xE2, CHR 0x80, CHR 0xAF],
      [CHR 0xE2, CHR 0x81, CHR 0x9F], [CHR 0xE3, CHR 0x80, CHR 0x80],
      [CHR 0xEF, CHR 0xBB, CHR 0xBF]]"

text \<open>The first of the given characters that the string starts with.\<close>

definition leading :: "string list \<Rightarrow> string \<Rightarrow> string option" where
  "leading cs str = find (\<lambda>c. c \<noteq> [] \<and> take (length c) str = c) cs"

function strip :: "string list \<Rightarrow> string \<Rightarrow> string" where
  "strip cs str = (case leading cs str of None \<Rightarrow> str | Some c \<Rightarrow> strip cs (drop (length c) str))"
  by pat_completeness auto
termination
proof (relation "measure (\<lambda>(cs, str). length str)")
  show "wf (measure (\<lambda>(cs, str). length str))" by simp
next
  fix cs :: "string list" and str c :: string
  assume "leading cs str = Some c"
  then have "c \<noteq> []" and "take (length c) str = c"
    by (auto simp add: leading_def find_Some_iff)
  then have "str \<noteq> []" by auto
  with \<open>c \<noteq> []\<close> show "((cs, drop (length c) str), (cs, str)) \<in> measure (\<lambda>(cs, str). length str)"
    by simp
qed

declare strip.simps [simp del]

text \<open>\<^verbatim>\<open>String.prototype.trim\<close>: white space is removed at both ends.\<close>

definition trim :: "string \<Rightarrow> string" where
  "trim str = rev (strip (map rev white_space) (rev (strip white_space str)))"

subsection \<open>Numbers\<close>

fun show_nat :: "nat \<Rightarrow> string" where
  "show_nat n =
     (if n < 10 then [''0123456789'' ! n]
      else show_nat (n div 10) @ [''0123456789'' ! (n mod 10)])"

declare show_nat.simps [simp del]

definition show_int :: "int \<Rightarrow> string" where
  "show_int i = (if i < 0 then CHR ''-'' # show_nat (nat (- i)) else show_nat (nat i))"

text \<open>The digits of a positive number without its trailing zeros, and the exponent that
  goes with them.\<close>

function shortest :: "nat \<Rightarrow> int \<Rightarrow> nat \<times> int" where
  "shortest m e = (if m \<noteq> 0 \<and> m mod 10 = 0 then shortest (m div 10) (e + 1) else (m, e))"
  by pat_completeness auto
termination
  by (relation "measure (\<lambda>(m, e). m)") auto

declare shortest.simps [simp del]

text \<open>
  \<^verbatim>\<open>Number.prototype.toString()\<close> for a positive finite number, by the rules of the
  language: with \<open>k\<close> digits and the decimal point after \<open>n\<close> of them, plain digits for
  \<open>n\<close> from -5 to 21 and exponent notation outside.
\<close>

definition positive_toString :: "nat \<Rightarrow> int \<Rightarrow> string" where
  "positive_toString m e =
     (let ds = show_nat (fst (shortest m e));
          k = int (length ds);
          n = k + snd (shortest m e)
      in if k \<le> n \<and> n \<le> 21 then ds @ replicate (nat (n - k)) (CHR ''0'')
         else if 0 < n \<and> n \<le> 21 then take (nat n) ds @ ''.'' @ drop (nat n) ds
         else if - 6 < n \<and> n \<le> 0 then ''0.'' @ replicate (nat (- n)) (CHR ''0'') @ ds
         else (let ex = (if n - 1 < 0 then ''-'' else ''+'') @ show_nat (nat \<bar>n - 1\<bar>)
               in if k = 1 then ds @ ''e'' @ ex
                  else take 1 ds @ ''.'' @ drop 1 ds @ ''e'' @ ex))"

text \<open>\<^verbatim>\<open>Number.prototype.toString()\<close>, also what a template literal does to a number.\<close>

fun number_toString :: "number \<Rightarrow> string" where
  "number_toString NaN = ''NaN''"
| "number_toString PosInfinity = ''Infinity''"
| "number_toString NegInfinity = ''-Infinity''"
| "number_toString (Dec m e) =
     (if m = 0 then ''0''
      else if m < 0 then CHR ''-'' # positive_toString (nat (- m)) e
      else positive_toString (nat m) e)"

text \<open>\<^verbatim>\<open>JSON.stringify\<close> writes \<^verbatim>\<open>NaN\<close> and the infinities as \<^verbatim>\<open>null\<close>.\<close>

fun number_json :: "number \<Rightarrow> jsval" where
  "number_json (Dec m e) = Num (Dec m e)"
| "number_json n = Null"

definition digit_value :: "char \<Rightarrow> nat option" where
  "digit_value c = map_of
     [(CHR ''0'', 0), (CHR ''1'', 1), (CHR ''2'', 2), (CHR ''3'', 3), (CHR ''4'', 4),
      (CHR ''5'', 5), (CHR ''6'', 6), (CHR ''7'', 7), (CHR ''8'', 8), (CHR ''9'', 9),
      (CHR ''a'', 10), (CHR ''b'', 11), (CHR ''c'', 12), (CHR ''d'', 13), (CHR ''e'', 14),
      (CHR ''f'', 15), (CHR ''A'', 10), (CHR ''B'', 11), (CHR ''C'', 12), (CHR ''D'', 13),
      (CHR ''E'', 14), (CHR ''F'', 15)] c"

definition is_digit :: "nat \<Rightarrow> char \<Rightarrow> bool" where
  "is_digit radix c = (case digit_value c of None \<Rightarrow> False | Some d \<Rightarrow> d < radix)"

definition digits_value :: "nat \<Rightarrow> string \<Rightarrow> nat" where
  "digits_value radix ds = foldl (\<lambda>acc c. acc * radix + the (digit_value c)) 0 ds"

text \<open>
  \<^verbatim>\<open>parseInt(string)\<close> with no radix: leading white space is skipped, a sign is read,
  a \<^verbatim>\<open>0x\<close> prefix selects radix 16, and the longest run of digits is the value;
  no digit at all gives \<^verbatim>\<open>NaN\<close>. (The value is taken exactly; the language rounds
  an integer of more than 15 digits to the nearest number it has.)
\<close>

definition parseInt :: "string \<Rightarrow> number" where
  "parseInt str =
     (let t = strip white_space str;
          negative = (take 1 t = ''-'');
          u = (if take 1 t = ''-'' \<or> take 1 t = ''+'' then drop 1 t else t);
          hex = (take 2 u = ''0x'' \<or> take 2 u = ''0X'');
          radix = (if hex then 16 else 10);
          ds = takeWhile (is_digit radix) (if hex then drop 2 u else u)
      in if ds = [] then NaN
         else Whole ((if negative then - 1 else 1) * int (digits_value radix ds)))"

subsection \<open>String conversion and the logical operators\<close>

fun join_comma :: "string list \<Rightarrow> string" where
  "join_comma [] = []"
| "join_comma [x] = x"
| "join_comma (x # y # ys) = x @ '','' @ join_comma (y # ys)"

text \<open>ToString, as the operator \<^verbatim>\<open>+\<close> applies it to the right operand of a string.\<close>

fun to_string :: "jsval \<Rightarrow> string" where
  "to_string Undefined = ''undefined''"
| "to_string Null = ''null''"
| "to_string (Bool b) = (if b then ''true'' else ''false'')"
| "to_string (Num n) = number_toString n"
| "to_string (Str str) = str"
| "to_string (Arr xs) = join_comma (map (\<lambda>x. if nullish x then [] else to_string x) xs)"
| "to_string (Obj kvs) = ''[object Object]''"

text \<open>\<^verbatim>\<open>a || b\<close>\<close>

definition js_or :: "jsval \<Rightarrow> jsval \<Rightarrow> jsval" where
  "js_or a b = (if truthy a then a else b)"

text \<open>
  ToNumber, as the operator \<^verbatim>\<open>>\<close> applies it; the conversion of a string is the
  parameter \<open>string_to_number\<close>. \<open>number_positive n\<close> is \<^verbatim>\<open>n > 0\<close>.
\<close>

fun to_number :: "(string \<Rightarrow> number) \<Rightarrow> jsval \<Rightarrow> number" where
  "to_number string_to_number Undefined = NaN"
| "to_number string_to_number Null = Whole 0"
| "to_number string_to_number (Bool b) = (if b then Whole 1 else Whole 0)"
| "to_number string_to_number (Num n) = n"
| "to_number string_to_number (Str str) = string_to_number str"
| "to_number string_to_number (Arr xs) = string_to_number (to_string (Arr xs))"
| "to_number string_to_number (Obj kvs) = NaN"

fun number_positive :: "number \<Rightarrow> bool" where
  "number_positive (Dec m e) = (0 < m)"
| "number_positive PosInfinity = True"
| "number_positive n = False"

text \<open>\<^verbatim>\<open>xs.map(f)\<close> where \<^verbatim>\<open>f\<close> may throw: the first exception ends the call.\<close>

fun map_throwing :: "('a \<Rightarrow> js_error + 'b) \<Rightarrow> 'a list \<Rightarrow> js_error + 'b list" where
  "map_throwing f [] = Inr []"
| "map_throwing f (x # xs) =
     (case f x of
        Inl e \<Rightarrow> Inl e
      | Inr y \<Rightarrow> (case map_throwing f xs of Inl e \<Rightarrow> Inl e | Inr ys \<Rightarrow> Inr (y # ys)))"

text \<open>
  Whether \<^verbatim>\<open>new Date(v)\<close> is a valid date. A string is handed to the engine's date
  parser, which is the parameter \<open>parses\<close>; a number is a time value, valid up to
  8.64e15 milliseconds either side of the epoch; \<^verbatim>\<open>undefined\<close> gives an invalid date.
\<close>

definition time_value_ok :: "number \<Rightarrow> bool" where
  "time_value_ok n =
     (case n of
        Dec m e \<Rightarrow>
          (if 0 \<le> e then \<bar>m\<bar> * 10 ^ nat e \<le> 8640000000000000
           else \<bar>m\<bar> \<le> 8640000000000000 * 10 ^ nat (- e))
      | _ \<Rightarrow> False)"

fun date_ok :: "(string \<Rightarrow> bool) \<Rightarrow> jsval \<Rightarrow> bool" where
  "date_ok parses Undefined = False"
| "date_ok parses Null = True"
| "date_ok parses (Bool b) = True"
| "date_ok parses (Num n) = time_value_ok n"
| "date_ok parses (Str str) = parses str"
| "date_ok parses (Arr xs) = parses (to_string (Arr xs))"
| "date_ok parses (Obj kvs) = parses (to_string (Obj kvs))"

section \<open>The API client (lib/api.ts)\<close>

text \<open>
  \<^verbatim>\<open>
  const API_BASE_URL = process.env.NEXT_PUBLIC_API_BASE_URL || "http://localhost:8000"
  const USE_MOCK_API = process.env.NEXT_PUBLIC_USE_MOCK_API === "true"
  \<close>
\<close>

record config =
  NEXT_PUBLIC_API_BASE_URL :: "string option"
  NEXT_PUBLIC_USE_MOCK_API :: "string option"

definition API_BASE_URL :: "config \<Rightarrow> string" where
  "API_BASE_URL cfg =
     (case NEXT_PUBLIC_API_BASE_URL cfg of
        None \<Rightarrow> ''http://localhost:8000''
      | Some u \<Rightarrow> if u = [] then ''http://localhost:8000'' else u)"

definition USE_MOCK_API :: "config \<Rightarrow> bool" where
  "USE_MOCK_API cfg = (NEXT_PUBLIC_USE_MOCK_API cfg = Some ''true'')"

subsection \<open>URLSearchParams\<close>

text \<open>
  The parameters are a list of name/value pairs in the order of the \<^verbatim>\<open>append\<close> calls;
  \<^verbatim>\<open>toString()\<close> is the application/x-www-form-urlencoded serialisation of the bytes.
\<close>

type_synonym url_search_params = "(string \<times> string) list"

definition append :: "url_search_params \<Rightarrow> string \<Rightarrow> string \<Rightarrow> url_search_params" where
  "append ps name v = ps @ [(name, v)]"

definition form_byte :: "char \<Rightarrow> string" where
  "form_byte c =
     (if c = CHR '' '' then ''+''
      else if c \<in> set ''abcdefghijklmnopqrstuvwxyzABCDEFGHIJKLMNOPQRSTUVWXYZ0123456789*-._''
      then [c]
      else [CHR ''%'', ''0123456789ABCDEF'' ! (of_char c div 16),
            ''0123456789ABCDEF'' ! (of_char c mod 16)])"

definition form_encode :: "string \<Rightarrow> string" where
  "form_encode str = concat (map form_byte str)"

fun join_amp :: "string list \<Rightarrow> string" where
  "join_amp [] = []"
| "join_amp [x] = x"
| "join_amp (x # y # ys) = x @ ''&'' @ join_amp (y # ys)"

definition params_toString :: "url_search_params \<Rightarrow> string" where
  "params_toString ps = join_amp (map (\<lambda>(n, v). form_encode n @ ''='' @ form_encode v) ps)"

subsection \<open>fetchAPI\<close>

text \<open>
  What \<^verbatim>\<open>fetch\<close> is called with, and the part of the \<^verbatim>\<open>Response\<close> that is read.
  \<open>json\<close> is the outcome of \<^verbatim>\<open>response.json()\<close>: the parsed body, or the SyntaxError
  it rejects with. The network is a function from requests to outcomes; \<open>Inl\<close> is a
  rejected \<^verbatim>\<open>fetch\<close> promise.
\<close>

record request_init =
  init_method :: "string option"
  init_body :: "jsval option"

record request =
  req_url :: string
  req_method :: string
  req_headers :: "(string \<times> string) list"
  req_body :: "jsval option"

record response =
  ok :: bool
  status :: nat
  statusText :: string
  json :: "js_error + jsval"


definition no_options :: request_init where
  "no_options = \<lparr> init_method = None, init_body = None \<rparr>"



subsection \<open>The operations of \<^verbatim>\<open>api\<close>\<close>

text \<open>
  The optional argument objects of \<^verbatim>\<open>getData\<close> (\<^verbatim>\<open>source?\<close>, \<^verbatim>\<open>tag?\<close>,
  \<^verbatim>\<open>limit?\<close>) and \<^verbatim>\<open>getNotifications\<close> (\<^verbatim>\<open>since_id?\<close>, \<^verbatim>\<open>unread_only?\<close>,
  \<^verbatim>\<open>limit?\<close>); \<open>None\<close> is a field left out.
\<close>

record get_data_params =
  dp_source :: "string option"
  dp_tag :: "string option"
  dp_limit :: "number option"

record notification_params =
  np_since_id :: "number option"
  np_unread_only :: "bool option"
  np_limit :: "number option"

record QueryRequest =
  rq_query :: string
  rq_model :: string
  rq_k :: number

record UploadRequest =
  up_text :: string
  up_source :: string
  up_tags :: "string list option"

text \<open>
  \<^verbatim>\<open>
  const searchParams = new URLSearchParams()
  if (params?.source) searchParams.append("source", params.source)
  if (params?.tag) searchParams.append("tag", params.tag)
  if (params?.limit) searchParams.append("limit", params.limit.toString())
  \<close>
  The conditions test truthiness: an empty string, the number 0 and \<^verbatim>\<open>NaN\<close> are falsy.
\<close>

definition getData_searchParams :: "get_data_params option \<Rightarrow> url_search_params" where
  "getData_searchParams params =
     (let p0 = [];
          p1 = (case params of
                  Some p \<Rightarrow> (case dp_source p of
                               Some v \<Rightarrow> if v \<noteq> [] then append p0 ''source'' v else p0
                             | None \<Rightarrow> p0)
                | None \<Rightarrow> p0);
          p2 = (case params of
                  Some p \<Rightarrow> (case dp_tag p of
                               Some v \<Rightarrow> if v \<noteq> [] then append p1 ''tag'' v else p1
                             | None \<Rightarrow> p1)
                | None \<Rightarrow> p1);
          p3 = (case params of
                  Some p \<Rightarrow> (case dp_limit p of
                               Some n \<Rightarrow> if number_truthy n
                                         then append p2 ''limit'' (number_toString n) else p2
                             | None \<Rightarrow> p2)
                | None \<Rightarrow> p2)
      in p3)"

text \<open>
  \<^verbatim>\<open>
  if (params?.since_id !== undefined)
    searchParams.append("since_id", params.since_id.toString())
  if (params?.unread_only !== undefined)
    searchParams.append("unread_only", params.unread_only.toString())
  if (params?.limit) searchParams.append("limit", params.limit.toString())
  \<close>
\<close>

definition getNotifications_searchParams :: "notification_params option \<Rightarrow> url_search_params" where
  "getNotifications_searchParams params =
     (let p0 = [];
          p1 = (case params of
                  Some p \<Rightarrow> (case np_since_id p of
                               Some n \<Rightarrow> append p0 ''since_id'' (number_toString n)
                             | None \<Rightarrow> p0)
                | None \<Rightarrow> p0);
          p2 = (case params of
                  Some p \<Rightarrow> (case np_unread_only p of
                               Some b \<Rightarrow> append p1 ''unread_only'' (if b then ''true'' else ''false'')
                             | None \<Rightarrow> p1)
                | None \<Rightarrow> p1);
          p3 = (case params of
                  Some p \<Rightarrow> (case np_limit p of
                               Some n \<Rightarrow> if number_truthy n
                                         then append p2 ''limit'' (number_toString n) else p2
                             | None \<Rightarrow> p2)
                | None \<Rightarrow> p2)
      in p3)"

text \<open>
  \<^verbatim>\<open>
  searchParams.append("query", request.query)
  searchParams.append("model", request.model)
  searchParams.append("k", request.k.toString())
  \<close>
\<close>

definition queryStream_searchParams :: "QueryRequest \<Rightarrow> url_search_params" where
  "queryStream_searchParams request =
     append (append (append [] ''query'' (rq_query request)) ''model'' (rq_model request))
       ''k'' (number_toString (rq_k request))"

definition queryStream_url :: "config \<Rightarrow> QueryRequest \<Rightarrow> string" where
  "queryStream_url cfg request =
     API_BASE_URL cfg @ ''/query/stream?'' @ params_toString (queryStream_searchParams request)"

text \<open>
  \<^verbatim>\<open>
  search: (query: string, k: number = 5) => {
    searchParams.append("query", query)
    searchParams.append("k", k.toString())
  \<close>
  The second argument is \<open>None\<close> when the caller leaves it out.
\<close>

definition search_searchParams :: "string \<Rightarrow> number option \<Rightarrow> url_search_params" where
  "search_searchParams q kopt =
     (let kk = (case kopt of None \<Rightarrow> Whole 5 | Some n \<Rightarrow> n)
      in append (append [] ''query'' q) ''k'' (number_toString kk))"

definition QueryRequest_json :: "QueryRequest \<Rightarrow> jsval" where
  "QueryRequest_json request =
     Obj [(''query'', Str (rq_query request)), (''model'', Str (rq_model request)),
          (''k'', number_json (rq_k request))]"

definition UploadRequest_json :: "UploadRequest \<Rightarrow> jsval" where
  "UploadRequest_json data =
     Obj ([(''text'', Str (up_text data)), (''source'', Str (up_source data))]
          @ (case up_tags data of None \<Rightarrow> [] | Some ts \<Rightarrow> [(''tags'', Arr (map Str ts))]))"

datatype api_op =
    GetStats
  | GetStatus
  | GetData "get_data_params option"
  | DeleteEntry number
  | CreateEntry UploadRequest
  | Query QueryRequest
  | Search string "number option"
  | GetKeybinds
  | AddSelectedTextKeybind string
  | AddScreenshotKeybind string
  | GetNotifications "notification_params option"
  | MarkNotificationRead number
  | MarkAllNotificationsRead
  | StartCapture
  | StopCapture

definition post :: "jsval option \<Rightarrow> request_init" where
  "post b = \<lparr> init_method = Some ''POST'', init_body = b \<rparr>"

text \<open>The endpoint and options each operation hands to \<^verbatim>\<open>fetchAPI\<close>.\<close>

fun fetch_arguments :: "api_op \<Rightarrow> string \<times> request_init" where
  "fetch_arguments GetStats = (''/stats'', no_options)"
| "fetch_arguments GetStatus = (''/status'', no_options)"
| "fetch_arguments (GetData params) =
     (''/data?'' @ params_toString (getData_searchParams params), no_options)"
| "fetch_arguments (DeleteEntry i) =
     (''/data/'' @ number_toString i, \<lparr> init_method = Some ''DELETE'', init_body = None \<rparr>)"
| "fetch_arguments (CreateEntry data) = (''/data'', post (Some (UploadRequest_json data)))"
| "fetch_arguments (Query request) = (''/query'', post (Some (QueryRequest_json request)))"
| "fetch_arguments (Search q kopt) =
     (''/search?'' @ params_toString (search_searchParams q kopt), no_options)"
| "fetch_arguments GetKeybinds = (''/keybinds'', no_options)"
| "fetch_arguments (AddSelectedTextKeybind keySequence) =
     (''/keybind/selected'', post (Some (Obj [(''key_sequence'', Str keySequence)])))"
| "fetch_arguments (AddScreenshotKeybind keySequence) =
     (''/keybind/screenshot'', post (Some (Obj [(''key_sequence'', Str keySequence)])))"
| "fetch_arguments (GetNotifications params) =
     (''/notifications?'' @ params_toString (getNotifications_searchParams params), no_options)"
| "fetch_arguments (MarkNotificationRead i) =
     (''/notifications/'' @ number_toString i @ ''/read'', post None)"
| "fetch_arguments MarkAllNotificationsRead = (''/notifications/read-all'', post None)"
| "fetch_arguments StartCapture = (''/control/start'', post None)"
| "fetch_arguments StopCapture = (''/control/stop'', post None)"




section \<open>The search tab (components/tabs/search-tab.tsx)\<close>

subsection \<open>State\<close>

text \<open>
  A toast handed to \<^verbatim>\<open>toast({ title, description, variant })\<close>; the store appends it
  (\<^verbatim>\<open>toasts: [...state.toasts, { ...toast, id }]\<close>, the random id is left out).
\<close>

record toast_msg =
  title :: jsval
  description :: jsval
  variant :: string

text \<open>
  What \<^verbatim>\<open>api.queryStream\<close> returns: an \<^verbatim>\<open>EventSource\<close> on the stream URL, or under
  \<^verbatim>\<open>USE_MOCK_API\<close> the object of \<^verbatim>\<open>mockApi.queryStream\<close>, a plain \<^verbatim>\<open>EventTarget\<close>
  whose \<^verbatim>\<open>close\<close> is \<^verbatim>\<open>() => {}\<close>; and whether \<^verbatim>\<open>close()\<close> has taken effect on it.
\<close>

datatype channel =
    EventSourceTo string
  | MockTarget QueryRequest

record event_source =
  es_channel :: channel
  es_closed :: bool

definition queryStream :: "config \<Rightarrow> QueryRequest \<Rightarrow> event_source" where
  "queryStream cfg request =
     (if USE_MOCK_API cfg then \<lparr> es_channel = MockTarget request, es_closed = False \<rparr>
      else \<lparr> es_channel = EventSourceTo (queryStream_url cfg request), es_closed = False \<rparr>)"

text \<open>
  The calls of \<^verbatim>\<open>api\<close> that the tab makes: \<^verbatim>\<open>api.queryStream(request)\<close>, which
  returns an event source, or one of the operations that return a promise
  (\<^verbatim>\<open>api.query(request)\<close> is \<open>Call (Query request)\<close> and \<^verbatim>\<open>api.search(query, k)\<close> is
  \<open>Call (Search query (Some k))\<close>).
\<close>

datatype api_call =
    CallQueryStream QueryRequest
  | Call api_op

text \<open>
  A call of \<^verbatim>\<open>handleSearch\<close> that is suspended at \<^verbatim>\<open>await api.query(...)\<close> or at
  \<^verbatim>\<open>await api.search(...)\<close>, or one whose promise has settled.
\<close>

datatype awaited = AwaitQuery | AwaitSearch | Settled

text \<open>What arrives on an event source: a message with its \<^verbatim>\<open>event.data\<close> as
  \<^verbatim>\<open>JSON.parse\<close> reads it (\<open>None\<close> when the data is no JSON text), or the error event
  of the connection, which an \<^verbatim>\<open>EventSource\<close> also gets when the response ends.\<close>

datatype stream_event =
    MessageEvent "jsval option"
  | ErrorEvent

text \<open>
  The state hooks of \<^verbatim>\<open>SearchTab\<close>, with their names (\<^verbatim>\<open>k\<close> is \<open>k_value\<close>;
  \<^verbatim>\<open>ragResponse\<close> and \<^verbatim>\<open>searchResults\<close> hold what the server answered, whatever
  JSON that is), and what the component does to the outside: the toasts it raises, the
  event sources it has opened (in the order of their creation: none is ever dropped), the
  suspended calls of \<^verbatim>\<open>handleSearch\<close>, the calls of \<^verbatim>\<open>api\<close> it has made, and the
  stream events its handlers were called with, each with the number of its event source.
\<close>

record search_state =
  query :: string
  model :: string
  useRag :: bool
  streamEnabled :: bool
  k_value :: number
  loading :: bool
  ragResponse :: jsval
  searchResults :: jsval
  streamingAnswer :: string
  toasts :: "toast_msg list"
  eventSources :: "event_source list"
  pending :: "awaited list"
  sent :: "api_call list"
  handled :: "(nat \<times> stream_event) list"

definition search_initial :: search_state where
  "search_initial =
     \<lparr> query = [], model = ''llama3.1:8b'', useRag = True, streamEnabled = True,
       k_value = Whole 5, loading = False, ragResponse = Null, searchResults = Arr [],
       streamingAnswer = [], toasts = [], eventSources = [], pending = [], sent = [],
       handled = [] \<rparr>"

definition toast :: "toast_msg \<Rightarrow> search_state \<Rightarrow> search_state" where
  "toast t s = s\<lparr> toasts := toasts s @ [t] \<rparr>"

text \<open>
  \<^verbatim>\<open>eventSource.close()\<close> in a handler of event source number \<open>i\<close>: it closes that
  event source and no other; on the mock's object it does nothing.
\<close>

definition close :: "nat \<Rightarrow> search_state \<Rightarrow> search_state" where
  "close i s =
     (if i < length (eventSources s) then
        (case es_channel (eventSources s ! i) of
           MockTarget request \<Rightarrow> s
         | EventSourceTo u \<Rightarrow>
             s\<lparr> eventSources := (eventSources s)[i := (eventSources s ! i)\<lparr> es_closed := True \<rparr>] \<rparr>)
      else s)"

subsection \<open>The stream handlers\<close>

text \<open>
  \<^verbatim>\<open>
  const transformedSources = data.sources.map((source: any) => ({
    entry: { id: source.id, source: source.source, timestamp: source.timestamp },
    relevance_score: source.score
  }))
  \<close>
\<close>

definition transform_source :: "jsval \<Rightarrow> js_error + jsval" where
  "transform_source src =
     (if nullish src then Inl cannot_read
      else Inr (Obj [(''entry'', Obj [(''id'', lookup src ''id''),
                                      (''source'', lookup src ''source''),
                                      (''timestamp'', lookup src ''timestamp'')]),
                     (''relevance_score'', lookup src ''score'')]))"

definition not_a_function :: js_error where
  "not_a_function = TypeError ''data.sources.map is not a function''"

text \<open>
  \<^verbatim>\<open>
  eventSource.onmessage = (event) => {
    const data = JSON.parse(event.data)
    if (data.type === "answer_chunk") {
      setStreamingAnswer((prev) => prev + data.content)
    } else if (data.type === "metadata") {
      const transformedSources = data.sources.map(...)
      setSearchResults(transformedSources)
    } else if (data.type === "done") {
      setLoading(false)
      eventSource.close()
    } else if (data.type === "error") {
      toast({ title: "Error", description: data.content || "Streaming failed",
              variant: "destructive" })
      setLoading(false)
      eventSource.close()
    }
  }
  \<close>
  The handler of event source number \<open>i\<close>; \<open>Inl\<close> is an exception that leaves it.
\<close>

definition onmessage :: "nat \<Rightarrow> search_state \<Rightarrow> jsval option \<Rightarrow> js_error + search_state" where
  "onmessage i s parsed =
     (case parsed of
        None \<Rightarrow> Inl (SyntaxError ''Unexpected token'')
      | Some data \<Rightarrow>
          if nullish data then Inl cannot_read
          else if lookup data ''type'' = Str ''answer_chunk'' then
            Inr (s\<lparr> streamingAnswer := streamingAnswer s @ to_string (lookup data ''content'') \<rparr>)
          else if lookup data ''type'' = Str ''metadata'' then
            (if nullish (lookup data ''sources'') then Inl cannot_read
             else (case lookup data ''sources'' of
                     Arr sources \<Rightarrow>
                       (case map_throwing transform_source sources of
                          Inl e \<Rightarrow> Inl e
                        | Inr transformedSources \<Rightarrow>
                            Inr (s\<lparr> searchResults := Arr transformedSources \<rparr>))
                   | _ \<Rightarrow> Inl not_a_function))
          else if lookup data ''type'' = Str ''done'' then
            Inr (close i (s\<lparr> loading := False \<rparr>))
          else if lookup data ''type'' = Str ''error'' then
            Inr (close i
                   ((toast \<lparr> title = Str ''Error'',
                              description = js_or (lookup data ''content'') (Str ''Streaming failed''),
                              variant = ''destructive'' \<rparr> s)
                      \<lparr> loading := False \<rparr>))
          else Inr s)"

text \<open>
  \<^verbatim>\<open>
  eventSource.onerror = () => {
    toast({ title: "Error", description: "Streaming failed", variant: "destructive" })
    setLoading(false)
    eventSource.close()
  }
  \<close>
\<close>

definition onerror :: "nat \<Rightarrow> search_state \<Rightarrow> search_state" where
  "onerror i s =
     close i ((toast \<lparr> title = Str ''Error'', description = Str ''Streaming failed'',
                        variant = ''destructive'' \<rparr> s)
                \<lparr> loading := False \<rparr>)"

text \<open>
  One event on event source number \<open>i\<close>. An \<^verbatim>\<open>EventSource\<close> that was closed dispatches
  nothing more; on an open one the handler runs, and an exception that leaves it is reported
  by the browser and changes no state. The mock's object is an \<^verbatim>\<open>EventTarget\<close>: it
  calls the listeners added with \<^verbatim>\<open>addEventListener\<close>, and the tab adds none (it assigns
  the properties \<^verbatim>\<open>onmessage\<close> and \<^verbatim>\<open>onerror\<close>), so no handler runs for its events.
\<close>

definition dispatch :: "search_state \<Rightarrow> nat \<Rightarrow> stream_event \<Rightarrow> search_state" where
  "dispatch s i ev =
     (if i < length (eventSources s) then
        (case es_channel (eventSources s ! i) of
           MockTarget request \<Rightarrow> s
         | EventSourceTo u \<Rightarrow>
             if es_closed (eventSources s ! i) then s
             else (let s1 = s\<lparr> handled := handled s @ [(i, ev)] \<rparr> in
                   case ev of
                     MessageEvent parsed \<Rightarrow>
                       (case onmessage i s1 parsed of Inl e \<Rightarrow> s1 | Inr s2 \<Rightarrow> s2)
                   | ErrorEvent \<Rightarrow> onerror i s1))
      else s)"

subsection \<open>handleSearch\<close>

text \<open>
  \<^verbatim>\<open>
  const handleSearch = async () => {
    if (!query.trim()) {
      toast({ title: "Error", description: "Please enter a search query", variant: "destructive" })
      return
    }
    setLoading(true); setRagResponse(null); setSearchResults([]); setStreamingAnswer("")
    try {
      if (useRag) {
        if (streamEnabled) {
          const eventSource = api.queryStream({ query, model, k })
          eventSource.onmessage = ...; eventSource.onerror = ...
        } else {
          const response = await api.query({ query, model, k })
          setRagResponse(response); setLoading(false)
        }
      } else {
        const results = await api.search(query, k)
        setSearchResults(results); setLoading(false)
      }
    } catch (error) {
      toast({ title: "Error",
              description: error instanceof Error ? error.message : "Search failed",
              variant: "destructive" })
      setLoading(false)
    }
  }
  \<close>
  \<open>handleSearch\<close> is the call up to its end or to the \<^verbatim>\<open>await\<close>, where it stays
  suspended while other events are handled; \<open>query_settled\<close> and \<open>search_settled\<close> are
  the rest of the call for the value or the error of the awaited promise. \<open>thrown\<close> is
  the exception of \<^verbatim>\<open>new EventSource(url)\<close>, which throws on a URL that the browser
  cannot parse and is not called otherwise; it lands in the \<^verbatim>\<open>catch\<close> block. The input is
  bound to \<^verbatim>\<open>onKeyDown={(e) => e.key === "Enter" && handleSearch()}\<close>, which does not
  look at \<^verbatim>\<open>loading\<close>; only the button is \<^verbatim>\<open>disabled={loading}\<close>.
\<close>

definition catch_error :: "js_error \<Rightarrow> search_state \<Rightarrow> search_state" where
  "catch_error error s =
     (toast \<lparr> title = Str ''Error'', description = Str (message error),
               variant = ''destructive'' \<rparr> s)
       \<lparr> loading := False \<rparr>"

definition handleSearch :: "config \<Rightarrow> js_error option \<Rightarrow> search_state \<Rightarrow> search_state" where
  "handleSearch cfg thrown s =
     (if trim (query s) = [] then
        toast \<lparr> title = Str ''Error'', description = Str ''Please enter a search query'',
                 variant = ''destructive'' \<rparr> s
      else
        (let s1 = s\<lparr> loading := True, ragResponse := Null, searchResults := Arr [],
                      streamingAnswer := [] \<rparr>;
             request = \<lparr> rq_query = query s, rq_model = model s, rq_k = k_value s \<rparr>
         in if useRag s then
              (if streamEnabled s then
                 (case (if USE_MOCK_API cfg then None else thrown) of
                    None \<Rightarrow>
                      s1\<lparr> eventSources := eventSources s1 @ [queryStream cfg request],
                           sent := sent s1 @ [CallQueryStream request] \<rparr>
                  | Some error \<Rightarrow>
                      catch_error error (s1\<lparr> sent := sent s1 @ [CallQueryStream request] \<rparr>))
               else
                 s1\<lparr> pending := pending s1 @ [AwaitQuery],
                      sent := sent s1 @ [Call (Query request)] \<rparr>)
            else
              s1\<lparr> pending := pending s1 @ [AwaitSearch],
                   sent := sent s1 @ [Call (Search (query s) (Some (k_value s)))] \<rparr>))"

definition query_settled :: "js_error + jsval \<Rightarrow> search_state \<Rightarrow> search_state" where
  "query_settled outcome s =
     (case outcome of
        Inr response \<Rightarrow> s\<lparr> ragResponse := response, loading := False \<rparr>
      | Inl error \<Rightarrow> catch_error error s)"

definition search_settled :: "js_error + jsval \<Rightarrow> search_state \<Rightarrow> search_state" where
  "search_settled outcome s =
     (case outcome of
        Inr results \<Rightarrow> s\<lparr> searchResults := results, loading := False \<rparr>
      | Inl error \<Rightarrow> catch_error error s)"

subsection \<open>The slider (components/ui/slider.tsx) and the form\<close>

text \<open>
  \<^verbatim>\<open>
  const handleChange = (e: React.ChangeEvent<HTMLInputElement>) => {
    onValueChange?.(parseInt(e.target.value))
  }
  \<close>
  The tab passes \<^verbatim>\<open>onValueChange={setK}\<close> with \<^verbatim>\<open>min={1} max={10}\<close>.
\<close>

definition handleChange :: "(number \<Rightarrow> 's \<Rightarrow> 's) option \<Rightarrow> string \<Rightarrow> 's \<Rightarrow> 's" where
  "handleChange onValueChange target_value s =
     (case onValueChange of None \<Rightarrow> s | Some f \<Rightarrow> f (parseInt target_value) s)"

definition setK :: "number \<Rightarrow> search_state \<Rightarrow> search_state" where
  "setK n s = s\<lparr> k_value := n \<rparr>"

text \<open>
  The values an \<^verbatim>\<open><input type="range">\<close> with the given \<^verbatim>\<open>min\<close> and \<^verbatim>\<open>max\<close> (and the
  default step 1) can report in \<^verbatim>\<open>e.target.value\<close>: the browser keeps the control's
  value a whole number of steps from \<^verbatim>\<open>min\<close> and not above \<^verbatim>\<open>max\<close>.
\<close>

definition range_values :: "int \<Rightarrow> int \<Rightarrow> string list" where
  "range_values lo hi = map show_int [lo..hi]"

text \<open>
  What happens in the tab while it is mounted: the form is edited, the query is submitted
  (with the button or the Enter key; the action carries the exception of the
  \<^verbatim>\<open>EventSource\<close> constructor, if it throws one), a suspended call gets the outcome of
  its promise, or an event arrives on one of the event sources.
\<close>

datatype search_action =
    ChangeQuery string
  | ChangeModel string
  | SwitchUseRag bool
  | SwitchStream bool
  | SlideK string
  | Submit "js_error option"
  | SettleQuery nat "js_error + jsval"
  | SettleSearch nat "js_error + jsval"
  | Stream nat stream_event

fun search_step :: "config \<Rightarrow> search_state \<Rightarrow> search_action \<Rightarrow> search_state" where
  "search_step cfg s (ChangeQuery v) = s\<lparr> query := v \<rparr>"
| "search_step cfg s (ChangeModel v) = s\<lparr> model := v \<rparr>"
| "search_step cfg s (SwitchUseRag b) = s\<lparr> useRag := b \<rparr>"
| "search_step cfg s (SwitchStream b) = s\<lparr> streamEnabled := b \<rparr>"
| "search_step cfg s (SlideK v) = handleChange (Some setK) v s"
| "search_step cfg s (Submit thrown) = handleSearch cfg thrown s"
| "search_step cfg s (SettleQuery n outcome) =
     (if n < length (pending s) \<and> pending s ! n = AwaitQuery
      then query_settled outcome (s\<lparr> pending := (pending s)[n := Settled] \<rparr>)
      else s)"
| "search_step cfg s (SettleSearch n outcome) =
     (if n < length (pending s) \<and> pending s ! n = AwaitSearch
      then search_settled outcome (s\<lparr> pending := (pending s)[n := Settled] \<rparr>)
      else s)"
| "search_step cfg s (Stream i ev) = dispatch s i ev"

definition valid_action :: "search_action \<Rightarrow> bool" where
  "valid_action a = (case a of SlideK v \<Rightarrow> v \<in> set (range_values 1 10) | _ \<Rightarrow> True)"

text \<open>The tab after a sequence of such happenings, from its initial state.\<close>

definition search_run :: "config \<Rightarrow> search_action list \<Rightarrow> search_state" where
  "search_run cfg acts = foldl (search_step cfg) search_initial acts"

subsection \<open>What the tab shows\<close>

text \<open>
  The pieces of one result card, in the order of the markup: the id badge
  (\<^verbatim>\<open>#{result.entry.id}\<close>), the source badge, the relevance dot and percentage (from
  \<^verbatim>\<open>result.relevance_score\<close>), the age (from \<^verbatim>\<open>result.entry.timestamp\<close>); then,
  under \<^verbatim>\<open>result.entry.content &&\<close>, the text block made of the content and the tags;
  and, under \<^verbatim>\<open>!result.entry.content && useRag\<close>, the line "Source reference (content
  used in answer generation)".
\<close>

datatype card_piece =
    IdBadge jsval
  | SourceBadge jsval
  | Relevance jsval
  | Age jsval
  | TextBlock jsval jsval
  | SourceReference

text \<open>
  What the render takes from outside the component: whether the date parser of the engine
  accepts a string, the conversion of a string to a number, and whether the markup of the
  text block renders for a given content and tags (it throws for some values that are not
  a string and a list of strings; the block is not followed further).
\<close>

record platform =
  date_parses :: "string \<Rightarrow> bool"
  string_to_number :: "string \<Rightarrow> number"
  text_block_renders :: "jsval \<Rightarrow> jsval \<Rightarrow> bool"

text \<open>
  \<^verbatim>\<open>formatDistanceToNow(new Date(result.entry.timestamp), { addSuffix: true })\<close>, which
  throws a RangeError when the date is not valid.
\<close>

definition age :: "platform \<Rightarrow> jsval \<Rightarrow> js_error + card_piece" where
  "age pf timestamp =
     (if date_ok (date_parses pf) timestamp then Inr (Age timestamp)
      else Inl (RangeError ''Invalid time value''))"

text \<open>Whether React accepts the value as a child: it throws on a plain object.\<close>

fun react_child :: "jsval \<Rightarrow> bool" where
  "react_child (Obj kvs) = False"
| "react_child (Arr xs) = list_all react_child xs"
| "react_child v = True"

text \<open>
  One card; \<open>None\<close> when an exception leaves its render: \<^verbatim>\<open>result.entry.id\<close> on a
  missing entry, an id or a source that is no React child, the age of an invalid date, or
  the text block.
\<close>

definition render_result :: "platform \<Rightarrow> bool \<Rightarrow> jsval \<Rightarrow> card_piece list option" where
  "render_result pf use_rag result =
     (if nullish result then None
      else (let entry = lookup result ''entry'' in
            if nullish entry then None
            else if \<not> react_child (lookup entry ''id'') \<or> \<not> react_child (lookup entry ''source'')
            then None
            else (case age pf (lookup entry ''timestamp'') of
                    Inl e \<Rightarrow> None
                  | Inr shown_age \<Rightarrow>
                      (let head = [IdBadge (lookup entry ''id''),
                                   SourceBadge (lookup entry ''source''),
                                   Relevance (lookup result ''relevance_score''), shown_age]
                       in if truthy (lookup entry ''content'') then
                            (if text_block_renders pf (lookup entry ''content'') (lookup entry ''tags'')
                             then Some (head @ [TextBlock (lookup entry ''content'')
                                                  (lookup entry ''tags'')])
                             else None)
                          else Some (head @ (if use_rag then [SourceReference] else []))))))"

text \<open>
  The results that \<^verbatim>\<open>searchResults.length > 0 && ... searchResults.map(...)\<close> goes
  through: the elements of an array; none for a value with no positive
  \<^verbatim>\<open>length\<close>; and \<open>None\<close> for an exception, on \<^verbatim>\<open>null\<close> (no \<^verbatim>\<open>length\<close> can
  be read) and on a string or an object with a positive \<^verbatim>\<open>length\<close> (no
  \<^verbatim>\<open>map\<close> can be called).
\<close>

definition result_list :: "platform \<Rightarrow> jsval \<Rightarrow> jsval list option" where
  "result_list pf results =
     (case results of
        Undefined \<Rightarrow> None
      | Null \<Rightarrow> None
      | Arr xs \<Rightarrow> Some xs
      | Str str \<Rightarrow> (if str = [] then Some [] else None)
      | Obj kvs \<Rightarrow>
          (if number_positive (to_number (string_to_number pf) (lookup (Obj kvs) ''length''))
           then None else Some [])
      | _ \<Rightarrow> Some [])"

text \<open>
  What the tab shows below the form: under \<^verbatim>\<open>(ragResponse || streamingAnswer) &&\<close> the
  answer card with \<^verbatim>\<open>{streamingAnswer || ragResponse?.answer || ""}\<close> (the value handed
  to \<^verbatim>\<open>ReactMarkdown\<close>, whose own rendering is not followed), and under
  \<^verbatim>\<open>searchResults.length > 0 &&\<close> the heading
  \<^verbatim>\<open>{useRag ? "Sources" : "Search Results"} ({searchResults.length})\<close> and one card
  per result.
\<close>

record tab_view =
  answer_card :: "jsval option"
  results_heading :: "string option"
  result_cards :: "card_piece list list"

text \<open>
  One render of the tab; \<open>None\<close> when an exception leaves it, which takes the whole tab
  down (there is no error boundary).
\<close>

definition render :: "platform \<Rightarrow> search_state \<Rightarrow> tab_view option" where
  "render pf s =
     (case result_list pf (searchResults s) of
        None \<Rightarrow> None
      | Some results \<Rightarrow>
          (case those (map (render_result pf (useRag s)) results) of
             None \<Rightarrow> None
           | Some cards \<Rightarrow>
               Some \<lparr> answer_card =
                        (if truthy (ragResponse s) \<or> streamingAnswer s \<noteq> [] then
                           Some (js_or (Str (streamingAnswer s))
                                   (js_or (lookup (ragResponse s) ''answer'') (Str [])))
                         else None),
                      results_heading =
                        (if results \<noteq> [] then
                           Some ((if useRag s then ''Sources'' else ''Search Results'') @ '' (''
                                 @ show_nat (length results) @ '')'')
                         else None),
                      result_cards = cards \<rparr>))"

subsection \<open>Vocabulary for the stream\<close>

text \<open>
  The events by the branch of the handlers that takes them: a done event is a message of
  type \<^verbatim>\<open>done\<close>, and an error is a message of type \<^verbatim>\<open>error\<close> or the error event
  of the connection. The done and error events are the terminal ones.
\<close>

definition is_done :: "stream_event \<Rightarrow> bool" where
  "is_done ev =
     (case ev of MessageEvent (Some d) \<Rightarrow> lookup d ''type'' = Str ''done'' | _ \<Rightarrow> False)"

definition is_error :: "stream_event \<Rightarrow> bool" where
  "is_error ev =
     (case ev of
        MessageEvent (Some d) \<Rightarrow> lookup d ''type'' = Str ''error''
      | MessageEvent None \<Rightarrow> False
      | ErrorEvent \<Rightarrow> True)"

definition terminal :: "stream_event \<Rightarrow> bool" where
  "terminal ev = (is_done ev \<or> is_error ev)"


text \<open>The events that arrive on event source number \<open>i\<close>, in their order.\<close>

fun events_of :: "nat \<Rightarrow> search_action list \<Rightarrow> stream_event list" where
  "events_of i [] = []"
| "events_of i (Stream j ev # acts) = (if j = i then ev # events_of i acts else events_of i acts)"
| "events_of i (a # acts) = events_of i acts"

text \<open>The events that the handlers of event source number \<open>i\<close> were called with.\<close>

definition handled_by :: "nat \<Rightarrow> search_state \<Rightarrow> stream_event list" where
  "handled_by i s = map snd (filter (\<lambda>p. fst p = i) (handled s))"

definition k_in_range :: "number \<Rightarrow> bool" where
  "k_in_range n = (case n of Dec m e \<Rightarrow> e = 0 \<and> 1 \<le> m \<and> m \<le> 10 | _ \<Rightarrow> False)"

text \<open>A call that the search form can make, with a \<^verbatim>\<open>k\<close> from 1 to 10.\<close>

definition form_call :: "api_call \<Rightarrow> bool" where
  "form_call c =
     (case c of
        CallQueryStream request \<Rightarrow> k_in_range (rq_k request)
      | Call (Query request) \<Rightarrow> k_in_range (rq_k request)
      | Call (Search q (Some n)) \<Rightarrow> k_in_range n
      | _ \<Rightarrow> False)"

section \<open>The mock stream (lib/mock-api.ts)\<close>




section \<open>The upload form: tags (upload tab)\<close>

text \<open>
  The part of the upload tab's React state that the tag handlers read and write:
  \<^verbatim>\<open>const [tags, setTags] = useState<string[]>([])\<close> and
  \<^verbatim>\<open>const [tagInput, setTagInput] = useState("")\<close>.
\<close>

record upload_state =
  tags :: "string list"
  tagInput :: string

definition upload_initial :: upload_state where
  "upload_initial = \<lparr> tags = [], tagInput = [] \<rparr>"

text \<open>
  \<^verbatim>\<open>
  const handleAddTag = (e: React.KeyboardEvent) => {
    if (e.key === "Enter" || e.key === ",") {
      e.preventDefault()
      const tag = tagInput.trim()
      if (tag && !tags.includes(tag)) {
        setTags([...tags, tag])
        setTagInput("")
      }
    }
  }
  \<close>
\<close>

definition handleAddTag :: "upload_state \<Rightarrow> string \<Rightarrow> upload_state" where
  "handleAddTag s key =
     (if key = ''Enter'' \<or> key = '','' then
        (let tag = trim (tagInput s) in
         if tag \<noteq> [] \<and> tag \<notin> set (tags s)
         then s\<lparr> tags := tags s @ [tag], tagInput := [] \<rparr>
         else s)
      else s)"

text \<open>\<^verbatim>\<open>const removeTag = (tag: string) => { setTags(tags.filter((t) => t !== tag)) }\<close>\<close>

definition removeTag :: "upload_state \<Rightarrow> string \<Rightarrow> upload_state" where
  "removeTag s tag = s\<lparr> tags := filter (\<lambda>t. t \<noteq> tag) (tags s) \<rparr>"

text \<open>
  The interactions of the form that touch the tags: typing into the tag field
  (\<^verbatim>\<open>onChange={(e) => setTagInput(e.target.value)}\<close>), a key press in it
  (\<^verbatim>\<open>onKeyDown={handleAddTag}\<close>), a click on a tag's badge
  (\<^verbatim>\<open>onClick={() => removeTag(tag)}\<close>), and a successful upload, after which
  \<^verbatim>\<open>handleUpload\<close> calls \<^verbatim>\<open>setTags([])\<close>.
\<close>

datatype upload_action =
    ChangeTagInput string
  | KeyDown string
  | ClickTag string
  | UploadSucceeded

fun upload_step :: "upload_state \<Rightarrow> upload_action \<Rightarrow> upload_state" where
  "upload_step s (ChangeTagInput v) = s\<lparr> tagInput := v \<rparr>"
| "upload_step s (KeyDown key) = handleAddTag s key"
| "upload_step s (ClickTag tag) = removeTag s tag"
| "upload_step s UploadSucceeded = s\<lparr> tags := [] \<rparr>"

definition upload_run :: "upload_action list \<Rightarrow> upload_state" where
  "upload_run acts = foldl upload_step upload_initial acts"

section \<open>The notification poller (app/page.tsx)\<close>

text \<open>
  A notification as the poller reads it: the \<^verbatim>\<open>id\<close>, a number by the interface
  \<^verbatim>\<open>Notification\<close>, and the properties \<^verbatim>\<open>title\<close>, \<^verbatim>\<open>message\<close> and \<^verbatim>\<open>status\<close>,
  which it reads through \<^verbatim>\<open>any\<close> (\<open>Undefined\<close> when absent).
\<close>

record notification =
  n_id :: int
  n_title :: jsval
  n_message :: jsval
  n_status :: jsval

text \<open>
  \<^verbatim>\<open>const lastNotificationId = useRef(0)\<close>, the toasts raised by the poller, and what
  the poller does to the outside: the parameters of its \<^verbatim>\<open>getNotifications\<close> calls,
  the ids of the notifications it has shown as a toast, and the ids it has called
  \<^verbatim>\<open>markNotificationRead\<close> with.
\<close>

record page_state =
  lastNotificationId :: int
  page_toasts :: "toast_msg list"
  polled :: "notification_params list"
  shown :: "int list"
  marked :: "int list"

definition page_initial :: page_state where
  "page_initial =
     \<lparr> lastNotificationId = 0, page_toasts = [], polled = [], shown = [], marked = [] \<rparr>"

text \<open>
  \<^verbatim>\<open>
  notif.status === "error" ? "destructive" : notif.status === "warning" ? "default" : "default"
  \<close>
\<close>

definition notification_variant :: "jsval \<Rightarrow> string" where
  "notification_variant st =
     (if st = Str ''error'' then ''destructive''
      else if st = Str ''warning'' then ''default'' else ''default'')"

text \<open>
  The body of the first \<^verbatim>\<open>forEach\<close>:
  \<^verbatim>\<open>
  if (notif && notif.title) {
    toast({ title: notif.title, description: notif.message || "", variant: ... })
    if (notif.id && notif.id > lastNotificationId.current) {
      lastNotificationId.current = notif.id
    }
  }
  \<close>
\<close>

definition show_notification :: "page_state \<Rightarrow> notification \<Rightarrow> page_state" where
  "show_notification st notif =
     (if truthy (n_title notif) then
        (let st1 = st\<lparr> page_toasts := page_toasts st
                          @ [\<lparr> title = n_title notif,
                                description = js_or (n_message notif) (Str []),
                                variant = notification_variant (n_status notif) \<rparr>],
                        shown := shown st @ [n_id notif] \<rparr>
         in if n_id notif \<noteq> 0 \<and> n_id notif > lastNotificationId st1
            then st1\<lparr> lastNotificationId := n_id notif \<rparr>
            else st1)
      else st)"

text \<open>
  \<^verbatim>\<open>
  const pollNotifications = async () => {
    try {
      const response = await api.getNotifications({
        since_id: lastNotificationId.current, unread_only: true, limit: 10 })
      const notifications = response?.notifications || []
      if (Array.isArray(notifications) && notifications.length > 0) {
        notifications.forEach(... show ...)
        notifications.forEach((notif: any) => {
          if (notif && notif.id) { api.markNotificationRead(notif.id).catch(() => {}) }
        })
      }
    } catch (error) { console.error("Error polling notifications:", error) }
  }
  pollNotifications()
  const interval = setInterval(pollNotifications, 2000)
  \<close>
  \<open>pollNotifications\<close> is the call up to the \<^verbatim>\<open>await\<close>: the arguments of
  \<^verbatim>\<open>api.getNotifications\<close> are read from the cursor at that moment.
  \<open>notifications_settled\<close> is the rest of the call, for the list under
  \<^verbatim>\<open>notifications\<close> of the answer or the error the promise rejects with. The timer
  starts the next call every two seconds, whether or not the last one was answered.
\<close>

definition pollNotifications :: "page_state \<Rightarrow> page_state" where
  "pollNotifications st =
     st\<lparr> polled := polled st
            @ [\<lparr> np_since_id = Some (Whole (lastNotificationId st)), np_unread_only = Some True,
                  np_limit = Some (Whole 10) \<rparr>] \<rparr>"

definition notifications_settled :: "js_error + notification list \<Rightarrow> page_state \<Rightarrow> page_state" where
  "notifications_settled outcome st =
     (case outcome of
        Inl error \<Rightarrow> st
      | Inr notifications \<Rightarrow>
          if notifications \<noteq> [] then
            (let st1 = foldl show_notification st notifications
             in st1\<lparr> marked := marked st1
                         @ map n_id (filter (\<lambda>notif. n_id notif \<noteq> 0) notifications) \<rparr>)
          else st)"

text \<open>What happens on the page: the timer fires, or a call that is waiting is answered.\<close>

datatype page_action =
    TimerFires
  | Answered "js_error + notification list"

fun page_step :: "page_state \<Rightarrow> page_action \<Rightarrow> page_state" where
  "page_step st TimerFires = pollNotifications st"
| "page_step st (Answered outcome) = notifications_settled outcome st"

text \<open>
  \<^verbatim>\<open>
  getNotifications: async (params?) => {
    await delay(300)
    return [{ id: 1, message: "5 new entries captured", type: "info",
              timestamp: new Date(Date.now() - 10 * 60 * 1000).toISOString(), read: false }]
  }
  \<close>
  What \<^verbatim>\<open>mockApi.getNotifications\<close> of lib/mock-api.ts answers, for every argument, as
  the poller reads it: there is no \<^verbatim>\<open>title\<close> and no \<^verbatim>\<open>status\<close>.
\<close>

definition mock_notifications :: "notification list" where
  "mock_notifications =
     [\<lparr> n_id = 1, n_title = Undefined, n_message = Str ''5 new entries captured'',
         n_status = Undefined \<rparr>]"

text \<open>The page after a sequence of such happenings, from its initial state.\<close>

definition page_run :: "page_action list \<Rightarrow> page_state" where
  "page_run acts = foldl page_step page_initial acts"

section \<open>The notification bus\<close>

text \<open>
  Modelled from the spec: the log of the Event/Notification Bus (section 4.6), whose
  implementation is the backend and is not among the sources: an append-only log of
  \<^verbatim>\<open>(id monotonically increasing, kind, message, timestamp, read flag)\<close>.
\<close>

record bus_entry =
  be_id :: int
  be_kind :: string
  be_message :: string
  be_timestamp :: nat
  be_read :: bool

type_synonym bus = "bus_entry list"

text \<open>
  Modelled from the spec: \<^verbatim>\<open>publish(kind, message) -> id\<close> of the bus, which is not among
  the sources. The new entry is unread and gets the next id, above every id of the log.
\<close>

definition publish :: "bus \<Rightarrow> string \<Rightarrow> string \<Rightarrow> nat \<Rightarrow> bus \<times> int" where
  "publish log kind msg now =
     (let i = (if log = [] then 1 else be_id (last log) + 1)
      in (log @ [\<lparr> be_id = i, be_kind = kind, be_message = msg, be_timestamp = now,
                    be_read = False \<rparr>], i))"

text \<open>
  Modelled from the spec: \<^verbatim>\<open>list(since_id, unread_only, limit) -> ordered sequence,
  ascending id\<close> of the bus, which is not among the sources: the entries with an id above
  \<^verbatim>\<open>since_id\<close>, the unread ones only when \<^verbatim>\<open>unread_only\<close> is set, in the order of
  the log, at most \<^verbatim>\<open>limit\<close> of them.
\<close>

definition list_notifications :: "bus \<Rightarrow> int \<Rightarrow> bool \<Rightarrow> nat \<Rightarrow> bus_entry list" where
  "list_notifications log since_id unread_only limit =
     take limit (filter (\<lambda>e. since_id < be_id e \<and> (unread_only \<longrightarrow> \<not> be_read e)) log)"

text \<open>
  Modelled from the spec: \<^verbatim>\<open>mark_read(id)\<close> and \<^verbatim>\<open>mark_all_read()\<close> of the bus, which
  are not among the sources.
\<close>

definition mark_read :: "bus \<Rightarrow> int \<Rightarrow> bus" where
  "mark_read log i = map (\<lambda>e. if be_id e = i then e\<lparr> be_read := True \<rparr> else e) log"

definition mark_all_read :: "bus \<Rightarrow> bus" where
  "mark_all_read log = map (\<lambda>e. e\<lparr> be_read := True \<rparr>) log"

text \<open>
  Modelled from the spec: the operations that change the bus (section 4.6), which is not
  among the sources, as the events of its history.
\<close>

datatype bus_event =
    Publish string string nat
  | MarkRead int
  | MarkAllRead

fun bus_step :: "bus \<Rightarrow> bus_event \<Rightarrow> bus" where
  "bus_step log (Publish kind msg now) = fst (publish log kind msg now)"
| "bus_step log (MarkRead i) = mark_read log i"
| "bus_step log MarkAllRead = mark_all_read log"

text \<open>
  Modelled from the spec: the log of the bus (section 4.6), which is not among the sources,
  after a history of its operations, from the empty log.
\<close>

definition bus_run :: "bus_event list \<Rightarrow> bus" where
  "bus_run events = foldl bus_step [] events"

section \<open>Inputs used in the examples\<close>

text \<open>
  The configuration without environment variables (the server at localhost, no mock) and
  the one that selects the mock.
\<close>

abbreviation plain_config :: config where
  "plain_config \<equiv> \<lparr> NEXT_PUBLIC_API_BASE_URL = None, NEXT_PUBLIC_USE_MOCK_API = None \<rparr>"

abbreviation mock_config :: config where
  "mock_config \<equiv> \<lparr> NEXT_PUBLIC_API_BASE_URL = None, NEXT_PUBLIC_USE_MOCK_API = Some ''true'' \<rparr>"

text \<open>The URL of the stream for the query "cats" (and "dogs") with the form's defaults.\<close>

abbreviation cats_url :: string where
  "cats_url \<equiv> ''http://localhost:8000/query/stream?query=cats&model=llama3.1%3A8b&k=5''"

abbreviation dogs_url :: string where
  "dogs_url \<equiv> ''http://localhost:8000/query/stream?query=dogs&model=llama3.1%3A8b&k=5''"



text \<open>
  Messages of a stream: \<^verbatim>\<open>{"type": "answer_chunk", "content": txt}\<close>,
  \<^verbatim>\<open>{"type": "done"}\<close> and \<^verbatim>\<open>{"type": "metadata", "sources": [...]}\<close>.
\<close>

abbreviation answer_chunk :: "string \<Rightarrow> stream_event" where
  "answer_chunk txt \<equiv>
     MessageEvent (Some (Obj [(''type'', Str ''answer_chunk''), (''content'', Str txt)]))"


abbreviation metadata_event :: "jsval list \<Rightarrow> stream_event" where
  "metadata_event srcs \<equiv>
     MessageEvent (Some (Obj [(''type'', Str ''metadata''), (''sources'', Arr srcs)]))"

text \<open>
  A source with its metadata and the text of its entry, score 0.92; and a source bound to
  an id and a score alone.
\<close>

abbreviation dated_source :: jsval where
  "dated_source \<equiv>
     Obj [(''id'', Num (Whole 7)), (''source'', Str ''clipboard''),
          (''timestamp'', Str ''2024-05-01T10:00:00Z''), (''score'', Num (Dec 92 (- 2))),
          (''text'', Str ''Cats sleep most of the day.'')]"


text \<open>
  A platform whose date parser accepts the timestamp of \<open>dated_source\<close> (and, to keep it
  small, nothing else).
\<close>

abbreviation example_platform :: platform where
  "example_platform \<equiv>
     \<lparr> date_parses = (\<lambda>str. str = ''2024-05-01T10:00:00Z''),
       string_to_number = (\<lambda>str. NaN),
       text_block_renders = (\<lambda>content tgs. True) \<rparr>"


text \<open>Notifications as a server with titles sends them.\<close>

abbreviation titled_1 :: notification where
  "titled_1 \<equiv> \<lparr> n_id = 1, n_title = Str ''Batch embedded'', n_message = Str ''5 entries'',
                 n_status = Undefined \<rparr>"

abbreviation titled_3 :: notification where
  "titled_3 \<equiv> \<lparr> n_id = 3, n_title = Str ''Batch embedded'', n_message = Str ''5 entries'',
                 n_status = Str ''success'' \<rparr>"

abbreviation failed_4 :: notification where
  "failed_4 \<equiv> \<lparr> n_id = 4, n_title = Str ''Batch failed'', n_message = Undefined,
                 n_status = Str ''error'' \<rparr>"

abbreviation untitled_5 :: notification where
  "untitled_5 \<equiv> \<lparr> n_id = 5, n_title = Undefined, n_message = Str ''no title'',
                   n_status = Undefined \<rparr>"

section \<open>Properties\<close>

subsection \<open>Tags\<close>

lemma handleAddTag_distinct: "distinct (tags s) \<Longrightarrow> distinct (tags (handleAddTag s key))"
  by (simp add: handleAddTag_def Let_def)

lemma removeTag_distinct: "distinct (tags s) \<Longrightarrow> distinct (tags (removeTag s tag))"
  by (simp add: removeTag_def)

lemma upload_step_distinct: "distinct (tags s) \<Longrightarrow> distinct (tags (upload_step s a))"
  by (cases a) (simp_all add: handleAddTag_distinct removeTag_distinct)

lemma upload_foldl_distinct:
  "distinct (tags s) \<Longrightarrow> distinct (tags (foldl upload_step s acts))"
  by (induction acts arbitrary: s) (simp_all add: upload_step_distinct)

lemma filter_neq_length:
  "distinct xs \<Longrightarrow> x \<in> set xs \<Longrightarrow> Suc (length (filter (\<lambda>t. t \<noteq> x) xs)) = length xs"
proof (induction xs)
  case Nil
  then show ?case by simp
next
  case (Cons y ys)
  show ?case
  proof (cases "y = x")
    case True
    with Cons.prems have "x \<notin> set ys" by simp
    then have "filter (\<lambda>t. t \<noteq> x) ys = ys" by (induction ys) auto
    with True show ?thesis by simp
  next
    case False
    with Cons show ?thesis by simp
  qed
qed

lemma trim_examples:
  "trim '' rust '' = ''rust''" "trim ''rust'' = ''rust''" "trim ''go'' = ''go''"
  "trim '' go '' = ''go''" "trim ''cats'' = ''cats''" "trim ''   '' = []"
  by code_simp+

text \<open>
  C8. The tags of the upload form are a set. After any sequence of interactions the tag
  list has no duplicate; a key press that would add a tag already present, or a tag that is
  empty after trimming, leaves the list as it was; and a click on a tag removes that tag and
  nothing else: the other tags stay, and where the tag was present the list is one shorter.
\<close>

theorem tags_form_a_set:
  "distinct (tags (upload_run acts))
   \<and> (trim (tagInput s) = [] \<or> trim (tagInput s) \<in> set (tags s)
        \<longrightarrow> tags (handleAddTag s key) = tags s)
   \<and> set (tags (removeTag s tag)) = set (tags s) - {tag}
   \<and> (distinct (tags s) \<and> tag \<in> set (tags s)
        \<longrightarrow> Suc (length (tags (removeTag s tag))) = length (tags s))"
proof -
  have a: "distinct (tags (upload_run acts))"
    unfolding upload_run_def by (rule upload_foldl_distinct) (simp add: upload_initial_def)
  have b: "trim (tagInput s) = [] \<or> trim (tagInput s) \<in> set (tags s)
        \<longrightarrow> tags (handleAddTag s key) = tags s"
    by (auto simp add: handleAddTag_def Let_def)
  have c: "set (tags (removeTag s tag)) = set (tags s) - {tag}"
    by (auto simp add: removeTag_def)
  have d: "distinct (tags s) \<and> tag \<in> set (tags s)
        \<longrightarrow> Suc (length (tags (removeTag s tag))) = length (tags s)"
    by (simp add: removeTag_def filter_neq_length)
  from a b c d show ?thesis by blast
qed

theorem tags_form_a_set_witness:
  "distinct (tags (upload_run [ChangeTagInput '' rust '', KeyDown ''Enter'',
       ChangeTagInput ''rust'', KeyDown '','', ChangeTagInput ''go'', KeyDown ''Enter'',
       ClickTag ''rust'']))
   \<and> trim (tagInput \<lparr> tags = [''rust'', ''go''], tagInput = '' go '' \<rparr>)
        \<in> set (tags \<lparr> tags = [''rust'', ''go''], tagInput = '' go '' \<rparr>)
   \<and> tags (handleAddTag \<lparr> tags = [''rust'', ''go''], tagInput = '' go '' \<rparr> ''Enter'')
        = [''rust'', ''go'']
   \<and> set (tags (removeTag \<lparr> tags = [''rust'', ''go''], tagInput = '' go '' \<rparr> ''rust''))
        = {''go''}
   \<and> distinct (tags \<lparr> tags = [''rust'', ''go''], tagInput = '' go '' \<rparr>)
   \<and> Suc (length (tags (removeTag \<lparr> tags = [''rust'', ''go''], tagInput = '' go '' \<rparr> ''rust'')))
        = 2"
  using tags_form_a_set [of
      "[ChangeTagInput '' rust '', KeyDown ''Enter'',
       ChangeTagInput ''rust'', KeyDown '','', ChangeTagInput ''go'', KeyDown ''Enter'',
       ClickTag ''rust'']"
      "\<lparr> tags = [''rust'', ''go''], tagInput = '' go '' \<rparr>" "''Enter''" "''rust''"]
  by (simp add: trim_examples)

subsection \<open>The data-listing request\<close>

lemma number_falsy: "(\<not> number_truthy n) = (n = NaN \<or> (\<exists>e. n = Dec 0 e))"
  by (cases n) auto

lemma getData_list:
  "getData_searchParams params =
     (case params of
        None \<Rightarrow> []
      | Some p \<Rightarrow>
          (case dp_source p of None \<Rightarrow> [] | Some v \<Rightarrow> if v = [] then [] else [(''source'', v)])
          @ (case dp_tag p of None \<Rightarrow> [] | Some v \<Rightarrow> if v = [] then [] else [(''tag'', v)])
          @ (case dp_limit p of
               None \<Rightarrow> []
             | Some n \<Rightarrow> if n = NaN \<or> (\<exists>e. n = Dec 0 e) then []
                         else [(''limit'', number_toString n)]))"
  by (simp add: getData_searchParams_def append_def number_falsy [symmetric]
           split: option.splits)

lemma getData_keys:
  "map fst (getData_searchParams params) =
     (case params of
        None \<Rightarrow> []
      | Some p \<Rightarrow>
          (if (\<exists>v. dp_source p = Some v \<and> v \<noteq> []) then [''source''] else [])
          @ (if (\<exists>v. dp_tag p = Some v \<and> v \<noteq> []) then [''tag''] else [])
          @ (if (\<exists>n. dp_limit p = Some n \<and> n \<noteq> NaN \<and> (\<forall>e. n \<noteq> Dec 0 e))
             then [''limit''] else []))"
  by (simp add: getData_list split: option.splits)

text \<open>
  C9, as stated, fails: a caller that supplies \<^verbatim>\<open>source: ""\<close>, \<^verbatim>\<open>tag: ""\<close> and
  \<^verbatim>\<open>limit: 0\<close> has supplied all three fields, and the request carries no parameter.
\<close>

theorem getData_supplied_counterexample:
  "dp_source \<lparr> dp_source = Some [], dp_tag = Some [], dp_limit = Some (Whole 0) \<rparr> = Some []
   \<and> dp_tag \<lparr> dp_source = Some [], dp_tag = Some [], dp_limit = Some (Whole 0) \<rparr> = Some []
   \<and> dp_limit \<lparr> dp_source = Some [], dp_tag = Some [], dp_limit = Some (Whole 0) \<rparr>
       = Some (Whole 0)
   \<and> getData_searchParams
        (Some \<lparr> dp_source = Some [], dp_tag = Some [], dp_limit = Some (Whole 0) \<rparr>) = []
   \<and> fst (fetch_arguments (GetData
        (Some \<lparr> dp_source = Some [], dp_tag = Some [], dp_limit = Some (Whole 0) \<rparr>)))
       = ''/data?''"
  by (simp add: getData_searchParams_def params_toString_def)

text \<open>
  C9, amended. The request of \<^verbatim>\<open>getData\<close> carries a \<^verbatim>\<open>source\<close> parameter exactly
  when the caller supplied a non-empty source, a \<^verbatim>\<open>tag\<close> parameter exactly when the
  caller supplied a non-empty tag, and a \<^verbatim>\<open>limit\<close> parameter exactly when the caller
  supplied a limit other than 0 and \<^verbatim>\<open>NaN\<close>. Each parameter has the supplied value
  (the limit as \<^verbatim>\<open>toString\<close> prints it), they come in the order source, tag, limit, and
  there is no other parameter, so a field that is left out adds nothing.
\<close>

theorem getData_parameters_iff_truthy:
  "(''source'' \<in> set (map fst (getData_searchParams params)))
     = (\<exists>p v. params = Some p \<and> dp_source p = Some v \<and> v \<noteq> [])
   \<and> (''tag'' \<in> set (map fst (getData_searchParams params)))
     = (\<exists>p v. params = Some p \<and> dp_tag p = Some v \<and> v \<noteq> [])
   \<and> (''limit'' \<in> set (map fst (getData_searchParams params)))
     = (\<exists>p n. params = Some p \<and> dp_limit p = Some n \<and> n \<noteq> NaN \<and> (\<forall>e. n \<noteq> Dec 0 e))
   \<and> getData_searchParams params =
       (case params of
          None \<Rightarrow> []
        | Some p \<Rightarrow>
            (case dp_source p of None \<Rightarrow> [] | Some v \<Rightarrow> if v = [] then [] else [(''source'', v)])
            @ (case dp_tag p of None \<Rightarrow> [] | Some v \<Rightarrow> if v = [] then [] else [(''tag'', v)])
            @ (case dp_limit p of
                 None \<Rightarrow> []
               | Some n \<Rightarrow> if n = NaN \<or> (\<exists>e. n = Dec 0 e) then []
                           else [(''limit'', number_toString n)]))
   \<and> fst (fetch_arguments (GetData params))
       = ''/data?'' @ params_toString (getData_searchParams params)"
proof -
  have a: "(''source'' \<in> set (map fst (getData_searchParams params)))
     = (\<exists>p v. params = Some p \<and> dp_source p = Some v \<and> v \<noteq> [])"
    unfolding getData_keys by (auto split: option.splits)
  have b: "(''tag'' \<in> set (map fst (getData_searchParams params)))
     = (\<exists>p v. params = Some p \<and> dp_tag p = Some v \<and> v \<noteq> [])"
    unfolding getData_keys by (auto split: option.splits)
  have c: "(''limit'' \<in> set (map fst (getData_searchParams params)))
     = (\<exists>p n. params = Some p \<and> dp_limit p = Some n \<and> n \<noteq> NaN \<and> (\<forall>e. n \<noteq> Dec 0 e))"
    unfolding getData_keys by (auto split: option.splits)
  have d: "fst (fetch_arguments (GetData params))
       = ''/data?'' @ params_toString (getData_searchParams params)"
    by simp
  from a b c d getData_list [of params] show ?thesis by blast
qed

lemma number_toString_examples:
  "number_toString (Whole 20) = ''20''" "number_toString (Dec 25 (- 1)) = ''2.5''"
  "number_toString (Whole 3) = ''3''" "number_toString (Whole 5) = ''5''"
  "number_toString (Whole 10) = ''10''" "number_toString (Whole 0) = ''0''"
  "number_toString (Whole 1) = ''1''" "number_toString (Whole 7) = ''7''"
  by code_simp+

theorem getData_parameters_iff_truthy_witness:
  "getData_searchParams
      (Some \<lparr> dp_source = Some ''clipboard'', dp_tag = None, dp_limit = Some (Whole 20) \<rparr>)
     = [(''source'', ''clipboard''), (''limit'', ''20'')]
   \<and> ''source'' \<in> set (map fst (getData_searchParams
        (Some \<lparr> dp_source = Some ''clipboard'', dp_tag = None, dp_limit = Some (Whole 20) \<rparr>)))
   \<and> ''tag'' \<notin> set (map fst (getData_searchParams
        (Some \<lparr> dp_source = Some ''clipboard'', dp_tag = None, dp_limit = Some (Whole 20) \<rparr>)))
   \<and> getData_searchParams
      (Some \<lparr> dp_source = None, dp_tag = Some ''rust'', dp_limit = Some NaN \<rparr>)
     = [(''tag'', ''rust'')]
   \<and> getData_searchParams None = []"
  using getData_parameters_iff_truthy
    [of "Some \<lparr> dp_source = Some ''clipboard'', dp_tag = None, dp_limit = Some (Whole 20) \<rparr>"]
    getData_parameters_iff_truthy
    [of "Some \<lparr> dp_source = None, dp_tag = Some ''rust'', dp_limit = Some NaN \<rparr>"]
    getData_parameters_iff_truthy [of None]
  by (simp add: number_toString_examples del: number_toString.simps)

subsection \<open>The fetch wrapper\<close>



subsection \<open>Requests of the search form\<close>

lemma show_int_range:
  "show_int 1 = ''1''" "show_int 2 = ''2''" "show_int 3 = ''3''" "show_int 4 = ''4''"
  "show_int 5 = ''5''" "show_int 6 = ''6''" "show_int 7 = ''7''" "show_int 8 = ''8''"
  "show_int 9 = ''9''" "show_int 10 = ''10''"
  by code_simp+

lemma parseInt_range_values:
  "parseInt ''1'' = Whole 1" "parseInt ''2'' = Whole 2" "parseInt ''3'' = Whole 3"
  "parseInt ''4'' = Whole 4" "parseInt ''5'' = Whole 5" "parseInt ''6'' = Whole 6"
  "parseInt ''7'' = Whole 7" "parseInt ''8'' = Whole 8" "parseInt ''9'' = Whole 9"
  "parseInt ''10'' = Whole 10"
  by code_simp+

lemma number_toString_range:
  "number_toString (Whole 1) = ''1''" "number_toString (Whole 2) = ''2''"
  "number_toString (Whole 3) = ''3''" "number_toString (Whole 4) = ''4''"
  "number_toString (Whole 5) = ''5''" "number_toString (Whole 6) = ''6''"
  "number_toString (Whole 7) = ''7''" "number_toString (Whole 8) = ''8''"
  "number_toString (Whole 9) = ''9''" "number_toString (Whole 10) = ''10''"
  by code_simp+

lemma one_to_ten:
  assumes "1 \<le> step" "step \<le> (10::int)"
  obtains "step = 1" | "step = 2" | "step = 3" | "step = 4" | "step = 5"
    | "step = 6" | "step = 7" | "step = 8" | "step = 9" | "step = 10"
  using assms by atomize_elim presburger

lemma parseInt_in_range:
  assumes "v \<in> set (range_values 1 10)"
  shows "k_in_range (parseInt v)"
proof -
  from assms obtain step where bounds: "1 \<le> step" "step \<le> 10" and v: "v = show_int step"
    by (auto simp add: range_values_def)
  from bounds show ?thesis
    by (cases rule: one_to_ten) (simp_all add: v show_int_range parseInt_range_values k_in_range_def)
qed

lemma number_toString_in_range:
  assumes "1 \<le> step" "step \<le> 10"
  shows "number_toString (Whole step) = show_int step"
  using assms
  by (cases rule: one_to_ten)
    (simp_all only: show_int_range number_toString_range)

lemma k_in_range_Whole: "k_in_range n = (\<exists>m. n = Whole m \<and> 1 \<le> m \<and> m \<le> 10)"
  by (cases n) (auto simp add: k_in_range_def)

lemma slider_reports_3: "''3'' \<in> set (range_values 1 10)"
proof -
  have "show_int 3 \<in> set (range_values 1 10)" by (simp add: range_values_def)
  then show ?thesis by (simp add: show_int_range)
qed

lemma close_keeps:
  "k_value (close i s) = k_value s" "sent (close i s) = sent s"
  "query (close i s) = query s" "model (close i s) = model s"
  "toasts (close i s) = toasts s" "loading (close i s) = loading s"
  "streamingAnswer (close i s) = streamingAnswer s" "searchResults (close i s) = searchResults s"
  "ragResponse (close i s) = ragResponse s" "handled (close i s) = handled s"
  "useRag (close i s) = useRag s" "streamEnabled (close i s) = streamEnabled s"
  "pending (close i s) = pending s"
  by (simp_all add: close_def split: channel.splits)

lemma onmessage_keeps_form:
  assumes "onmessage i s parsed = Inr s'"
  shows "k_value s' = k_value s" "sent s' = sent s"
  using assms
  by (auto simp add: onmessage_def close_keeps toast_def
      split: option.splits if_splits jsval.splits sum.splits)

lemma dispatch_keeps_form:
  "k_value (dispatch s i ev) = k_value s" "sent (dispatch s i ev) = sent s"
proof -
  have "k_value (dispatch s i ev) = k_value s \<and> sent (dispatch s i ev) = sent s"
  proof (cases ev)
    case (MessageEvent parsed)
    show ?thesis
    proof (cases "onmessage i (s\<lparr> handled := handled s @ [(i, ev)] \<rparr>) parsed")
      case (Inl e)
      with MessageEvent show ?thesis
        by (simp add: dispatch_def Let_def split: channel.splits)
    next
      case (Inr s')
      from onmessage_keeps_form[OF Inr] MessageEvent Inr show ?thesis
        by (simp add: dispatch_def Let_def split: channel.splits)
    qed
  next
    case ErrorEvent
    then show ?thesis
      by (simp add: dispatch_def Let_def onerror_def close_keeps toast_def split: channel.splits)
  qed
  then show "k_value (dispatch s i ev) = k_value s" "sent (dispatch s i ev) = sent s"
    by simp_all
qed

lemma handleSearch_keeps_k: "k_value (handleSearch cfg thrown s) = k_value s"
  by (simp add: handleSearch_def Let_def toast_def catch_error_def split: option.splits)

lemma handleSearch_sent:
  "sent (handleSearch cfg thrown s) =
     sent s @ (if trim (query s) = [] then []
               else if useRag s then
                 (if streamEnabled s
                  then [CallQueryStream \<lparr> rq_query = query s, rq_model = model s, rq_k = k_value s \<rparr>]
                  else [Call (Query \<lparr> rq_query = query s, rq_model = model s, rq_k = k_value s \<rparr>)])
               else [Call (Search (query s) (Some (k_value s)))])"
  by (simp add: handleSearch_def Let_def toast_def catch_error_def split: option.splits)

lemma handleSearch_eventSources:
  "eventSources (handleSearch cfg thrown s) =
     eventSources s @ (if trim (query s) \<noteq> [] \<and> useRag s \<and> streamEnabled s
                          \<and> (USE_MOCK_API cfg \<or> thrown = None)
                       then [queryStream cfg \<lparr> rq_query = query s, rq_model = model s,
                                                rq_k = k_value s \<rparr>]
                       else [])"
  by (simp add: handleSearch_def Let_def toast_def catch_error_def split: option.splits)

lemma request_fields:
  "k_in_range (rq_k r) \<Longrightarrow>
     \<exists>q mo j. 1 \<le> j \<and> j \<le> (10::int) \<and> r = \<lparr> rq_query = q, rq_model = mo, rq_k = Whole j \<rparr>"
  by (cases r) (auto simp add: k_in_range_Whole)

lemma form_call_cases:
  assumes "form_call c"
  shows "\<exists>q mo j. 1 \<le> j \<and> j \<le> (10::int)
            \<and> (c = CallQueryStream \<lparr> rq_query = q, rq_model = mo, rq_k = Whole j \<rparr>
               \<or> c = Call (Query \<lparr> rq_query = q, rq_model = mo, rq_k = Whole j \<rparr>)
               \<or> c = Call (Search q (Some (Whole j))))"
proof (cases c)
  case (CallQueryStream r)
  with assms have "k_in_range (rq_k r)" by (simp add: form_call_def)
  from request_fields[OF this] CallQueryStream show ?thesis by blast
next
  case (Call op)
  show ?thesis
  proof (cases op)
    case (Query r)
    with assms Call have "k_in_range (rq_k r)" by (simp add: form_call_def)
    from request_fields[OF this] Call Query show ?thesis by blast
  next
    case (Search q kopt)
    with assms Call obtain n where "kopt = Some n" "k_in_range n"
      by (cases kopt) (simp_all add: form_call_def)
    with Call Search show ?thesis by (auto simp add: k_in_range_Whole)
  qed (use assms Call in \<open>simp_all add: form_call_def\<close>)
qed

lemma settled_keeps_form:
  "k_value (query_settled outcome s) = k_value s" "sent (query_settled outcome s) = sent s"
  "k_value (search_settled outcome s) = k_value s" "sent (search_settled outcome s) = sent s"
  by (simp_all add: query_settled_def search_settled_def catch_error_def toast_def
      split: sum.splits)

lemma search_step_invariant:
  assumes "valid_action a" "k_in_range (k_value s)" "\<forall>c\<in>set (sent s). form_call c"
  shows "k_in_range (k_value (search_step cfg s a))
       \<and> (\<forall>c\<in>set (sent (search_step cfg s a)). form_call c)"
proof (cases a)
  case (SlideK v)
  with assms(1) have "v \<in> set (range_values 1 10)" by (simp add: valid_action_def)
  then have "k_in_range (parseInt v)" by (rule parseInt_in_range)
  with SlideK assms show ?thesis by (simp add: handleChange_def setK_def)
next
  case (Submit thrown)
  with assms show ?thesis
    by (simp add: handleSearch_keeps_k handleSearch_sent form_call_def)
next
  case (Stream i ev)
  with assms show ?thesis by (simp add: dispatch_keeps_form)
next
  case (SettleQuery n outcome)
  with assms show ?thesis by (simp add: settled_keeps_form)
next
  case (SettleSearch n outcome)
  with assms show ?thesis by (simp add: settled_keeps_form)
qed (use assms in simp_all)

lemma search_foldl_invariant:
  assumes "list_all valid_action acts" "k_in_range (k_value s)"
    "\<forall>c\<in>set (sent s). form_call c"
  shows "k_in_range (k_value (foldl (search_step cfg) s acts))
       \<and> (\<forall>c\<in>set (sent (foldl (search_step cfg) s acts)). form_call c)"
  using assms
proof (induction acts arbitrary: s)
  case Nil
  then show ?case by simp
next
  case (Cons a acts)
  from Cons.prems have va: "valid_action a" and rest: "list_all valid_action acts"
    by simp_all
  from search_step_invariant[OF va Cons.prems(2,3)]
  have "k_in_range (k_value (search_step cfg s a))"
    and "\<forall>c\<in>set (sent (search_step cfg s a)). form_call c" by blast+
  from Cons.IH[OF rest this] show ?case by simp
qed

lemma search_run_invariant:
  assumes "list_all valid_action acts"
  shows "k_in_range (k_value (search_run cfg acts))"
    and "\<forall>c\<in>set (sent (search_run cfg acts)). form_call c"
proof -
  have "k_in_range (k_value search_initial)" "\<forall>c\<in>set (sent search_initial). form_call c"
    by (simp_all add: search_initial_def k_in_range_def)
  from search_foldl_invariant[OF assms this]
  show "k_in_range (k_value (search_run cfg acts))"
    and "\<forall>c\<in>set (sent (search_run cfg acts)). form_call c"
    by (simp_all add: search_run_def)
qed

text \<open>
  C3, as stated, fails for search-only mode: with the form's defaults, the query "cats" and
  RAG switched off, the one call made is \<^verbatim>\<open>api.search("cats", 5)\<close>, and its request
  has the parameters \<^verbatim>\<open>query\<close> and \<^verbatim>\<open>k\<close>: it carries no \<^verbatim>\<open>model\<close>.
\<close>

theorem search_only_request_counterexample:
  "sent (search_run plain_config
          [ChangeQuery ''cats'', SwitchUseRag False, Submit None])
     = [Call (Search ''cats'' (Some (Whole 5)))]
   \<and> search_searchParams ''cats'' (Some (Whole 5)) = [(''query'', ''cats''), (''k'', ''5'')]
   \<and> fetch_arguments (Search ''cats'' (Some (Whole 5)))
     = (''/search?query=cats&k=5'', \<lparr> init_method = None, init_body = None \<rparr>)
   \<and> ''model'' \<notin> set (map fst (search_searchParams ''cats'' (Some (Whole 5))))"
proof -
  have a: "sent (search_run plain_config
          [ChangeQuery ''cats'', SwitchUseRag False, Submit None])
     = [Call (Search ''cats'' (Some (Whole 5)))]"
    by (simp add: search_run_def search_initial_def handleSearch_sent trim_examples)
  have b: "search_searchParams ''cats'' (Some (Whole 5)) = [(''query'', ''cats''), (''k'', ''5'')]"
    by (simp add: search_searchParams_def append_def number_toString_range
        del: number_toString.simps)
  have c: "params_toString [(''query'', ''cats''), (''k'', ''5'')] = ''query=cats&k=5''"
    by code_simp
  from a b c show ?thesis by (simp add: no_options_def)
qed

text \<open>
  C3, amended. Take the search form after anything that can be done in it, with the slider
  reporting values of a range control from 1 to 10. Its \<^verbatim>\<open>k\<close> is an integer from 1 to
  10, and so is the \<^verbatim>\<open>k\<close> of every call made so far. A submit with a blank query makes
  no call. Otherwise the submit makes exactly one call, by the mode: in RAG mode with
  streaming, \<^verbatim>\<open>api.queryStream\<close> with the parameters \<^verbatim>\<open>query\<close>, \<^verbatim>\<open>model\<close> and \<^verbatim>\<open>k\<close>
  of the form in the URL (which the new event source connects to, unless the mock is
  configured or the browser cannot parse the URL); in RAG mode without streaming, \<^verbatim>\<open>api.query\<close> with \<^verbatim>\<open>query\<close>,
  \<^verbatim>\<open>model\<close> and \<^verbatim>\<open>k\<close> in the body of a POST; in search-only mode, \<^verbatim>\<open>api.search\<close>
  with \<^verbatim>\<open>query\<close> and \<^verbatim>\<open>k\<close> in the URL, and no model.
\<close>

theorem submitted_query_parameters:
  assumes "list_all valid_action acts" and "s = search_run cfg acts"
  shows "\<exists>m. k_value s = Whole m \<and> 1 \<le> m \<and> m \<le> 10
     \<and> (\<forall>c\<in>set (sent s). \<exists>q mo j. 1 \<le> j \<and> j \<le> (10::int)
            \<and> (c = CallQueryStream \<lparr> rq_query = q, rq_model = mo, rq_k = Whole j \<rparr>
               \<or> c = Call (Query \<lparr> rq_query = q, rq_model = mo, rq_k = Whole j \<rparr>)
               \<or> c = Call (Search q (Some (Whole j)))))
     \<and> (trim (query s) = [] \<longrightarrow> sent (handleSearch cfg thrown s) = sent s)
     \<and> (trim (query s) \<noteq> [] \<and> useRag s \<and> streamEnabled s \<longrightarrow>
          sent (handleSearch cfg thrown s)
            = sent s @ [CallQueryStream \<lparr> rq_query = query s, rq_model = model s,
                                          rq_k = Whole m \<rparr>]
          \<and> queryStream_searchParams \<lparr> rq_query = query s, rq_model = model s, rq_k = Whole m \<rparr>
            = [(''query'', query s), (''model'', model s), (''k'', show_int m)]
          \<and> (\<not> USE_MOCK_API cfg \<and> thrown = None \<longrightarrow>
               eventSources (handleSearch cfg thrown s)
                 = eventSources s
                   @ [\<lparr> es_channel = EventSourceTo
                          (API_BASE_URL cfg @ ''/query/stream?''
                           @ params_toString [(''query'', query s), (''model'', model s),
                                              (''k'', show_int m)]),
                        es_closed = False \<rparr>]))
     \<and> (trim (query s) \<noteq> [] \<and> useRag s \<and> \<not> streamEnabled s \<longrightarrow>
          sent (handleSearch cfg thrown s)
            = sent s @ [Call (Query \<lparr> rq_query = query s, rq_model = model s, rq_k = Whole m \<rparr>)]
          \<and> fetch_arguments (Query \<lparr> rq_query = query s, rq_model = model s, rq_k = Whole m \<rparr>)
            = (''/query'',
               \<lparr> init_method = Some ''POST'',
                 init_body = Some (Obj [(''query'', Str (query s)), (''model'', Str (model s)),
                                        (''k'', Num (Whole m))]) \<rparr>))
     \<and> (trim (query s) \<noteq> [] \<and> \<not> useRag s \<longrightarrow>
          sent (handleSearch cfg thrown s) = sent s @ [Call (Search (query s) (Some (Whole m)))]
          \<and> fetch_arguments (Search (query s) (Some (Whole m)))
            = (''/search?'' @ params_toString [(''query'', query s), (''k'', show_int m)],
               \<lparr> init_method = None, init_body = None \<rparr>))"
proof -
  from search_run_invariant[OF assms(1), of cfg] assms(2)
  have kr: "k_in_range (k_value s)" and hist: "\<forall>c\<in>set (sent s). form_call c"
    by simp_all
  from kr obtain m where m: "k_value s = Whole m" "1 \<le> m" "m \<le> 10"
    by (auto simp add: k_in_range_Whole)
  have ns: "number_toString (Whole m) = show_int m"
    using m(2,3) by (rule number_toString_in_range)
  have h: "\<forall>c\<in>set (sent s). \<exists>q mo j. 1 \<le> j \<and> j \<le> (10::int)
            \<and> (c = CallQueryStream \<lparr> rq_query = q, rq_model = mo, rq_k = Whole j \<rparr>
               \<or> c = Call (Query \<lparr> rq_query = q, rq_model = mo, rq_k = Whole j \<rparr>)
               \<or> c = Call (Search q (Some (Whole j))))"
  proof
    fix c assume "c \<in> set (sent s)"
    with hist have "form_call c" by blast
    then show "\<exists>q mo j. 1 \<le> j \<and> j \<le> (10::int)
            \<and> (c = CallQueryStream \<lparr> rq_query = q, rq_model = mo, rq_k = Whole j \<rparr>
               \<or> c = Call (Query \<lparr> rq_query = q, rq_model = mo, rq_k = Whole j \<rparr>)
               \<or> c = Call (Search q (Some (Whole j))))"
      by (rule form_call_cases)
  qed
  have blank: "trim (query s) = [] \<longrightarrow> sent (handleSearch cfg thrown s) = sent s"
    by (simp add: handleSearch_sent)
  have stream: "trim (query s) \<noteq> [] \<and> useRag s \<and> streamEnabled s \<longrightarrow>
          sent (handleSearch cfg thrown s)
            = sent s @ [CallQueryStream \<lparr> rq_query = query s, rq_model = model s,
                                          rq_k = Whole m \<rparr>]
          \<and> queryStream_searchParams \<lparr> rq_query = query s, rq_model = model s, rq_k = Whole m \<rparr>
            = [(''query'', query s), (''model'', model s), (''k'', show_int m)]
          \<and> (\<not> USE_MOCK_API cfg \<and> thrown = None \<longrightarrow>
               eventSources (handleSearch cfg thrown s)
                 = eventSources s
                   @ [\<lparr> es_channel = EventSourceTo
                          (API_BASE_URL cfg @ ''/query/stream?''
                           @ params_toString [(''query'', query s), (''model'', model s),
                                              (''k'', show_int m)]),
                        es_closed = False \<rparr>])"
    using ns
    by (simp add: handleSearch_sent handleSearch_eventSources m(1) queryStream_def
        queryStream_url_def queryStream_searchParams_def append_def
        del: number_toString.simps)
  have rag: "trim (query s) \<noteq> [] \<and> useRag s \<and> \<not> streamEnabled s \<longrightarrow>
          sent (handleSearch cfg thrown s)
            = sent s @ [Call (Query \<lparr> rq_query = query s, rq_model = model s, rq_k = Whole m \<rparr>)]
          \<and> fetch_arguments (Query \<lparr> rq_query = query s, rq_model = model s, rq_k = Whole m \<rparr>)
            = (''/query'',
               \<lparr> init_method = Some ''POST'',
                 init_body = Some (Obj [(''query'', Str (query s)), (''model'', Str (model s)),
                                        (''k'', Num (Whole m))]) \<rparr>)"
    by (simp add: handleSearch_sent m(1) post_def QueryRequest_json_def)
  have only: "trim (query s) \<noteq> [] \<and> \<not> useRag s \<longrightarrow>
          sent (handleSearch cfg thrown s) = sent s @ [Call (Search (query s) (Some (Whole m)))]
          \<and> fetch_arguments (Search (query s) (Some (Whole m)))
            = (''/search?'' @ params_toString [(''query'', query s), (''k'', show_int m)],
               \<lparr> init_method = None, init_body = None \<rparr>)"
    using ns
    by (simp add: handleSearch_sent m(1) search_searchParams_def append_def no_options_def
        del: number_toString.simps)
  from m h blank stream rag only show ?thesis by blast
qed


theorem submitted_query_parameters_witness:
  "list_all valid_action [ChangeQuery ''cats'', SlideK ''3'', Submit None, SwitchUseRag False]
   \<and> sent (search_run plain_config
             [ChangeQuery ''cats'', SlideK ''3'', Submit None, SwitchUseRag False])
     = [CallQueryStream \<lparr> rq_query = ''cats'', rq_model = ''llama3.1:8b'', rq_k = Whole 3 \<rparr>]
   \<and> sent (handleSearch plain_config None
          (search_run plain_config
             [ChangeQuery ''cats'', SlideK ''3'', Submit None, SwitchUseRag False]))
     = [CallQueryStream \<lparr> rq_query = ''cats'', rq_model = ''llama3.1:8b'', rq_k = Whole 3 \<rparr>,
        Call (Search ''cats'' (Some (Whole 3)))]
   \<and> fetch_arguments (Search ''cats'' (Some (Whole 3)))
     = (''/search?query=cats&k=3'', \<lparr> init_method = None, init_body = None \<rparr>)
   \<and> eventSources (search_run
          plain_config
          [ChangeQuery ''cats'', SlideK ''3'', Submit None, SwitchUseRag False])
     = [\<lparr> es_channel = EventSourceTo
           ''http://localhost:8000/query/stream?query=cats&model=llama3.1%3A8b&k=3'',
          es_closed = False \<rparr>]
   \<and> trim [CHR 0x20, CHR 0xC2, CHR 0xA0, CHR 0x09] = []
   \<and> sent (handleSearch plain_config None
          (search_run plain_config [ChangeQuery [CHR 0x20, CHR 0xC2, CHR 0xA0, CHR 0x09]]))
     = []"
proof -
  let ?cfg = "plain_config"
  let ?before = "search_run ?cfg [ChangeQuery ''cats'', SlideK ''3'']"
  let ?after = "search_run ?cfg [ChangeQuery ''cats'', SlideK ''3'', Submit None, SwitchUseRag False]"
  have v0: "list_all valid_action [ChangeQuery ''cats'', SlideK ''3'']"
    by (simp add: valid_action_def slider_reports_3)
  have v: "list_all valid_action [ChangeQuery ''cats'', SlideK ''3'', Submit None, SwitchUseRag False]"
    by (simp add: valid_action_def slider_reports_3)
  have before: "query ?before = ''cats''" "model ?before = ''llama3.1:8b''" "k_value ?before = Whole 3"
    "useRag ?before" "streamEnabled ?before" "sent ?before = []" "eventSources ?before = []"
    by (simp_all add: search_run_def search_initial_def handleChange_def setK_def
        parseInt_range_values)
  have step: "?after = (handleSearch ?cfg None ?before)\<lparr> useRag := False \<rparr>"
    by (simp add: search_run_def)
  have after: "query ?after = ''cats''" "k_value ?after = Whole 3" "\<not> useRag ?after"
    "sent ?after = sent (handleSearch ?cfg None ?before)" "eventSources ?after = eventSources (handleSearch ?cfg None ?before)"
    unfolding step by (simp_all add: handleSearch_def Let_def toast_def before trim_examples)
  have enc: "params_toString [(''query'', ''cats''), (''model'', ''llama3.1:8b''), (''k'', ''3'')]
      = ''query=cats&model=llama3.1%3A8b&k=3''"
    "params_toString [(''query'', ''cats''), (''k'', ''3'')] = ''query=cats&k=3''"
    by code_simp+
  from submitted_query_parameters[OF v0 refl, of ?cfg None] before
  have first: "sent (handleSearch ?cfg None ?before)
      = [CallQueryStream \<lparr> rq_query = ''cats'', rq_model = ''llama3.1:8b'', rq_k = Whole 3 \<rparr>]"
    "eventSources (handleSearch ?cfg None ?before)
      = [\<lparr> es_channel = EventSourceTo
            ''http://localhost:8000/query/stream?query=cats&model=llama3.1%3A8b&k=3'',
           es_closed = False \<rparr>]"
    by (auto simp add: trim_examples USE_MOCK_API_def API_BASE_URL_def show_int_range enc)
  from submitted_query_parameters[OF v refl, of ?cfg None] after
  have second: "sent (handleSearch ?cfg None ?after)
      = sent ?after @ [Call (Search ''cats'' (Some (Whole 3)))]"
    "fetch_arguments (Search ''cats'' (Some (Whole 3)))
     = (''/search?query=cats&k=3'', \<lparr> init_method = None, init_body = None \<rparr>)"
    by (auto simp add: trim_examples show_int_range enc)
  have blank: "trim [CHR 0x20, CHR 0xC2, CHR 0xA0, CHR 0x09] = []"
    by code_simp
  have none: "query (search_run ?cfg [ChangeQuery [CHR 0x20, CHR 0xC2, CHR 0xA0, CHR 0x09]])
      = [CHR 0x20, CHR 0xC2, CHR 0xA0, CHR 0x09]"
    "sent (search_run ?cfg [ChangeQuery [CHR 0x20, CHR 0xC2, CHR 0xA0, CHR 0x09]]) = []"
    by (simp_all add: search_run_def search_initial_def)
  have vb: "list_all valid_action [ChangeQuery [CHR 0x20, CHR 0xC2, CHR 0xA0, CHR 0x09]]"
    by (simp add: valid_action_def)
  from submitted_query_parameters[OF vb refl, of ?cfg None] none blank
  have third: "sent (handleSearch ?cfg None
      (search_run ?cfg [ChangeQuery [CHR 0x20, CHR 0xC2, CHR 0xA0, CHR 0x09]])) = []"
    by auto
  from v first second after blank third show ?thesis by simp
qed

subsection \<open>The handlers of one event source\<close>




lemma close_open:
  assumes "i < length (eventSources s)"
    and "eventSources s ! i = \<lparr> es_channel = EventSourceTo u, es_closed = False \<rparr>"
  shows "close i s
       = s\<lparr> eventSources := (eventSources s)[i := \<lparr> es_channel = EventSourceTo u,
                                                     es_closed = True \<rparr>] \<rparr>"
  using assms by (simp add: close_def)












subsection \<open>One stream among the others\<close>




lemma handled_by_same: "handled s' = handled s \<Longrightarrow> handled_by i s' = handled_by i s"
  by (simp add: handled_by_def)












subsection \<open>A running stream\<close>

lemma stream_url:
  "params_toString [(''query'', ''cats''), (''model'', ''llama3.1:8b''), (''k'', ''5'')]
     = ''query=cats&model=llama3.1%3A8b&k=5''"
  "params_toString [(''query'', ''dogs''), (''model'', ''llama3.1:8b''), (''k'', ''5'')]
     = ''query=dogs&model=llama3.1%3A8b&k=5''"
  by code_simp+

lemma queryStream_cats:
  "queryStream plain_config
      \<lparr> rq_query = ''cats'', rq_model = ''llama3.1:8b'', rq_k = Whole 5 \<rparr>
     = \<lparr> es_channel = EventSourceTo
           cats_url,
         es_closed = False \<rparr>"
  by (simp add: queryStream_def USE_MOCK_API_def queryStream_url_def API_BASE_URL_def
      queryStream_searchParams_def append_def number_toString_range stream_url
      del: number_toString.simps)

lemma queryStream_dogs:
  "queryStream plain_config
      \<lparr> rq_query = ''dogs'', rq_model = ''llama3.1:8b'', rq_k = Whole 5 \<rparr>
     = \<lparr> es_channel = EventSourceTo
           dogs_url,
         es_closed = False \<rparr>"
  by (simp add: queryStream_def USE_MOCK_API_def queryStream_url_def API_BASE_URL_def
      queryStream_searchParams_def append_def number_toString_range stream_url
      del: number_toString.simps)

lemma queryStream_mock:
  "queryStream mock_config
      request
     = \<lparr> es_channel = MockTarget request, es_closed = False \<rparr>"
  by (simp add: queryStream_def USE_MOCK_API_def)

lemma trim_dogs: "trim ''dogs'' = ''dogs''"
  by code_simp


text \<open>The equations that evaluate a run of the tab on given events.\<close>

lemmas search_eval =
  search_run_def search_initial_def handleSearch_def Let_def trim_examples trim_dogs
  queryStream_cats queryStream_dogs queryStream_mock dispatch_def onmessage_def onerror_def
  close_def toast_def js_or_def handled_by_def terminal_def is_done_def is_error_def
  search_settled_def query_settled_def catch_error_def transform_source_def
  render_def result_list_def render_result_def age_def show_nat.simps

subsection \<open>The events the consumer reads\<close>





subsection \<open>The end of a stream\<close>




subsection \<open>The sources of an answer\<close>







subsection \<open>Two streams at once\<close>

text \<open>
  C4 does not hold when a query is submitted while the stream of an earlier one is still
  open. The Enter key in the query field submits also while the tab is loading (only the
  button is disabled then), and the submit opens a new event source without closing the
  earlier one. After "cats" and then "dogs" were submitted, a fragment of the first stream
  and one of the second arrive: the answer shown is both of them, where the fragments of the
  second stream, the one of the query on display, are "Dogs bark." alone.
\<close>

theorem overlapping_streams_mix_answers:
  "streamingAnswer (search_run plain_config
      [ChangeQuery ''cats'',
       Submit None,
       ChangeQuery ''dogs'',
       Submit None,
       Stream 0 (answer_chunk ''Cats sleep. ''),
       Stream 1 (answer_chunk ''Dogs bark.'')])
     = ''Cats sleep. Dogs bark.''
   \<and> map_option answer_card (render example_platform
        (search_run plain_config
      [ChangeQuery ''cats'',
       Submit None,
       ChangeQuery ''dogs'',
       Submit None,
       Stream 0 (answer_chunk ''Cats sleep. ''),
       Stream 1 (answer_chunk ''Dogs bark.'')]))
     = Some (Some (Str ''Cats sleep. Dogs bark.''))
   \<and> events_of 1 [ChangeQuery ''cats'',
       Submit None,
       ChangeQuery ''dogs'',
       Submit None,
       Stream 0 (answer_chunk ''Cats sleep. ''),
       Stream 1 (answer_chunk ''Dogs bark.'')]
     = [answer_chunk ''Dogs bark.'']
   \<and> query (search_run plain_config
      [ChangeQuery ''cats'',
       Submit None,
       ChangeQuery ''dogs'',
       Submit None,
       Stream 0 (answer_chunk ''Cats sleep. ''),
       Stream 1 (answer_chunk ''Dogs bark.'')]) = ''dogs''
   \<and> eventSources (search_run plain_config
      [ChangeQuery ''cats'',
       Submit None,
       ChangeQuery ''dogs'',
       Submit None,
       Stream 0 (answer_chunk ''Cats sleep. ''),
       Stream 1 (answer_chunk ''Dogs bark.'')])
     = [\<lparr> es_channel = EventSourceTo cats_url, es_closed = False \<rparr>,
        \<lparr> es_channel = EventSourceTo dogs_url, es_closed = False \<rparr>]"
proof -
  have a: "streamingAnswer (search_run plain_config
      [ChangeQuery ''cats'',
       Submit None,
       ChangeQuery ''dogs'',
       Submit None,
       Stream 0 (answer_chunk ''Cats sleep. ''),
       Stream 1 (answer_chunk ''Dogs bark.'')])
     = ''Cats sleep. Dogs bark.''"
    by (simp add: search_eval)
  have b: "map_option answer_card (render example_platform
        (search_run plain_config
      [ChangeQuery ''cats'',
       Submit None,
       ChangeQuery ''dogs'',
       Submit None,
       Stream 0 (answer_chunk ''Cats sleep. ''),
       Stream 1 (answer_chunk ''Dogs bark.'')]))
     = Some (Some (Str ''Cats sleep. Dogs bark.''))"
    by (simp add: search_eval)
  have c: "events_of 1 [ChangeQuery ''cats'',
       Submit None,
       ChangeQuery ''dogs'',
       Submit None,
       Stream 0 (answer_chunk ''Cats sleep. ''),
       Stream 1 (answer_chunk ''Dogs bark.'')]
     = [answer_chunk ''Dogs bark.'']"
    by simp
  have d: "query (search_run plain_config
      [ChangeQuery ''cats'',
       Submit None,
       ChangeQuery ''dogs'',
       Submit None,
       Stream 0 (answer_chunk ''Cats sleep. ''),
       Stream 1 (answer_chunk ''Dogs bark.'')]) = ''dogs''"
    by (simp add: search_eval)
  have e: "eventSources (search_run plain_config
      [ChangeQuery ''cats'',
       Submit None,
       ChangeQuery ''dogs'',
       Submit None,
       Stream 0 (answer_chunk ''Cats sleep. ''),
       Stream 1 (answer_chunk ''Dogs bark.'')])
     = [\<lparr> es_channel = EventSourceTo cats_url, es_closed = False \<rparr>,
        \<lparr> es_channel = EventSourceTo dogs_url, es_closed = False \<rparr>]"
    by (simp add: search_eval)
  from a b c d e show ?thesis by blast
qed

subsection \<open>A failed search\<close>

text \<open>
  C6 does not hold when the search-only query is submitted while the stream of an earlier
  RAG query is still open. After "cats" was submitted for a streamed answer, RAG is switched
  off and "dogs" is submitted with the Enter key. The search request is rejected: the error
  is reported and the tab stops loading. Then the sources event of the first stream
  arrives, and the tab shows its source as the one search result.
\<close>

theorem failed_search_shows_stale_sources:
  "toasts (search_run plain_config
      [ChangeQuery ''cats'',
       Submit None,
       SwitchUseRag False,
       ChangeQuery ''dogs'',
       Submit None,
       SettleSearch 0 (Inl (APIError 500 ''API Error: Internal Server Error'')),
       Stream 0 (metadata_event [dated_source])])
     = [\<lparr> title = Str ''Error'', description = Str ''API Error: Internal Server Error'', variant = ''destructive'' \<rparr>]
   \<and> \<not> loading (search_run plain_config
      [ChangeQuery ''cats'',
       Submit None,
       SwitchUseRag False,
       ChangeQuery ''dogs'',
       Submit None,
       SettleSearch 0 (Inl (APIError 500 ''API Error: Internal Server Error'')),
       Stream 0 (metadata_event [dated_source])])
   \<and> sent (search_run plain_config
      [ChangeQuery ''cats'',
       Submit None,
       SwitchUseRag False,
       ChangeQuery ''dogs'',
       Submit None,
       SettleSearch 0 (Inl (APIError 500 ''API Error: Internal Server Error'')),
       Stream 0 (metadata_event [dated_source])])
     = [CallQueryStream \<lparr> rq_query = ''cats'', rq_model = ''llama3.1:8b'', rq_k = Whole 5 \<rparr>,
        Call (Search ''dogs'' (Some (Whole 5)))]
   \<and> searchResults (search_run plain_config
      [ChangeQuery ''cats'',
       Submit None,
       SwitchUseRag False,
       ChangeQuery ''dogs'',
       Submit None,
       SettleSearch 0 (Inl (APIError 500 ''API Error: Internal Server Error'')),
       Stream 0 (metadata_event [dated_source])])
     = Arr [Obj [(''entry'', Obj [(''id'', Num (Whole 7)), (''source'', Str ''clipboard''),
                                  (''timestamp'', Str ''2024-05-01T10:00:00Z'')]),
                 (''relevance_score'', Num (Dec 92 (- 2)))]]
   \<and> map_option results_heading (render example_platform
        (search_run plain_config
      [ChangeQuery ''cats'',
       Submit None,
       SwitchUseRag False,
       ChangeQuery ''dogs'',
       Submit None,
       SettleSearch 0 (Inl (APIError 500 ''API Error: Internal Server Error'')),
       Stream 0 (metadata_event [dated_source])]))
     = Some (Some ''Search Results (1)'')
   \<and> map_option result_cards (render example_platform
        (search_run plain_config
      [ChangeQuery ''cats'',
       Submit None,
       SwitchUseRag False,
       ChangeQuery ''dogs'',
       Submit None,
       SettleSearch 0 (Inl (APIError 500 ''API Error: Internal Server Error'')),
       Stream 0 (metadata_event [dated_source])]))
     = Some [[IdBadge (Num (Whole 7)), SourceBadge (Str ''clipboard''),
              Relevance (Num (Dec 92 (- 2))), Age (Str ''2024-05-01T10:00:00Z'')]]"
proof -
  have a: "toasts (search_run plain_config
      [ChangeQuery ''cats'',
       Submit None,
       SwitchUseRag False,
       ChangeQuery ''dogs'',
       Submit None,
       SettleSearch 0 (Inl (APIError 500 ''API Error: Internal Server Error'')),
       Stream 0 (metadata_event [dated_source])])
     = [\<lparr> title = Str ''Error'', description = Str ''API Error: Internal Server Error'', variant = ''destructive'' \<rparr>]"
    by (simp add: search_eval)
  have b: "\<not> loading (search_run plain_config
      [ChangeQuery ''cats'',
       Submit None,
       SwitchUseRag False,
       ChangeQuery ''dogs'',
       Submit None,
       SettleSearch 0 (Inl (APIError 500 ''API Error: Internal Server Error'')),
       Stream 0 (metadata_event [dated_source])])"
    by (simp add: search_eval)
  have c: "sent (search_run plain_config
      [ChangeQuery ''cats'',
       Submit None,
       SwitchUseRag False,
       ChangeQuery ''dogs'',
       Submit None,
       SettleSearch 0 (Inl (APIError 500 ''API Error: Internal Server Error'')),
       Stream 0 (metadata_event [dated_source])])
     = [CallQueryStream \<lparr> rq_query = ''cats'', rq_model = ''llama3.1:8b'', rq_k = Whole 5 \<rparr>,
        Call (Search ''dogs'' (Some (Whole 5)))]"
    by (simp add: search_eval)
  have d: "searchResults (search_run plain_config
      [ChangeQuery ''cats'',
       Submit None,
       SwitchUseRag False,
       ChangeQuery ''dogs'',
       Submit None,
       SettleSearch 0 (Inl (APIError 500 ''API Error: Internal Server Error'')),
       Stream 0 (metadata_event [dated_source])])
     = Arr [Obj [(''entry'', Obj [(''id'', Num (Whole 7)), (''source'', Str ''clipboard''),
                                  (''timestamp'', Str ''2024-05-01T10:00:00Z'')]),
                 (''relevance_score'', Num (Dec 92 (- 2)))]]"
    by (simp add: search_eval)
  have e: "map_option results_heading (render example_platform
        (search_run plain_config
      [ChangeQuery ''cats'',
       Submit None,
       SwitchUseRag False,
       ChangeQuery ''dogs'',
       Submit None,
       SettleSearch 0 (Inl (APIError 500 ''API Error: Internal Server Error'')),
       Stream 0 (metadata_event [dated_source])]))
     = Some (Some ''Search Results (1)'')"
    by (simp add: search_eval)
  have f: "map_option result_cards (render example_platform
        (search_run plain_config
      [ChangeQuery ''cats'',
       Submit None,
       SwitchUseRag False,
       ChangeQuery ''dogs'',
       Submit None,
       SettleSearch 0 (Inl (APIError 500 ''API Error: Internal Server Error'')),
       Stream 0 (metadata_event [dated_source])]))
     = Some [[IdBadge (Num (Whole 7)), SourceBadge (Str ''clipboard''),
              Relevance (Num (Dec 92 (- 2))), Age (Str ''2024-05-01T10:00:00Z'')]]"
    by (simp add: search_eval)
  from a b c d e f show ?thesis by blast
qed

subsection \<open>Notification polling\<close>

lemma show_notification_cursor:
  "lastNotificationId (show_notification st notif)
     = (if truthy (n_title notif) \<and> n_id notif \<noteq> 0
        then max (lastNotificationId st) (n_id notif) else lastNotificationId st)"
  by (simp add: show_notification_def Let_def max_def)

lemma show_notification_effect:
  "shown (show_notification st notif)
     = shown st @ (if truthy (n_title notif) then [n_id notif] else [])"
  "page_toasts (show_notification st notif)
     = page_toasts st
       @ (if truthy (n_title notif)
          then [\<lparr> title = n_title notif,
                  description = (if truthy (n_message notif) then n_message notif else Str []),
                  variant = (if n_status notif = Str ''error'' then ''destructive''
                             else ''default'') \<rparr>]
          else [])"
  "polled (show_notification st notif) = polled st"
  "marked (show_notification st notif) = marked st"
  by (simp_all add: show_notification_def Let_def js_or_def notification_variant_def)

lemma show_all_effect:
  "lastNotificationId (foldl show_notification st ns)
     = foldl max (lastNotificationId st)
         (map n_id (filter (\<lambda>n. truthy (n_title n) \<and> n_id n \<noteq> 0) ns))
   \<and> shown (foldl show_notification st ns)
       = shown st @ map n_id (filter (\<lambda>n. truthy (n_title n)) ns)
   \<and> page_toasts (foldl show_notification st ns)
       = page_toasts st
         @ map (\<lambda>n. \<lparr> title = n_title n,
                       description = (if truthy (n_message n) then n_message n else Str []),
                       variant = (if n_status n = Str ''error'' then ''destructive''
                                  else ''default'') \<rparr>)
             (filter (\<lambda>n. truthy (n_title n)) ns)
   \<and> polled (foldl show_notification st ns) = polled st
   \<and> marked (foldl show_notification st ns) = marked st"
proof (induction ns arbitrary: st)
  case Nil
  then show ?case by simp
next
  case (Cons n ns)
  from Cons.IH[of "show_notification st n"] show ?case
    by (simp add: show_notification_cursor show_notification_effect)
qed

lemma settled_effect:
  "lastNotificationId (notifications_settled (Inr ns) st)
     = foldl max (lastNotificationId st)
         (map n_id (filter (\<lambda>n. truthy (n_title n) \<and> n_id n \<noteq> 0) ns))"
  "shown (notifications_settled (Inr ns) st)
     = shown st @ map n_id (filter (\<lambda>n. truthy (n_title n)) ns)"
  "page_toasts (notifications_settled (Inr ns) st)
     = page_toasts st
       @ map (\<lambda>n. \<lparr> title = n_title n,
                     description = (if truthy (n_message n) then n_message n else Str []),
                     variant = (if n_status n = Str ''error'' then ''destructive''
                                else ''default'') \<rparr>)
           (filter (\<lambda>n. truthy (n_title n)) ns)"
  "marked (notifications_settled (Inr ns) st)
     = marked st @ map n_id (filter (\<lambda>n. n_id n \<noteq> 0) ns)"
  "polled (notifications_settled (Inr ns) st) = polled st"
  using show_all_effect[of st ns]
  by (cases "ns = []"; simp add: notifications_settled_def Let_def)+

lemma settled_error: "notifications_settled (Inl e) st = st"
  by (simp add: notifications_settled_def)

lemma Max_cursor:
  "(c::int) \<le> foldl max c xs" "\<forall>x\<in>set xs. x \<le> foldl max c xs"
proof -
  have "c \<le> foldl max c xs \<and> (\<forall>x\<in>set xs. x \<le> foldl max c xs)"
  proof (induction xs arbitrary: c)
    case Nil
    show ?case by simp
  next
    case (Cons y ys)
    from Cons.IH[of "max c y"] show ?case by auto
  qed
  then show "c \<le> foldl max c xs" "\<forall>x\<in>set xs. x \<le> foldl max c xs" by simp_all
qed

lemma page_step_cursor: "lastNotificationId st \<le> lastNotificationId (page_step st a)"
proof (cases a)
  case TimerFires
  then show ?thesis by (simp add: pollNotifications_def)
next
  case (Answered outcome)
  show ?thesis
  proof (cases outcome)
    case (Inl e)
    with Answered show ?thesis by (simp add: settled_error)
  next
    case (Inr ns)
    with Answered show ?thesis
      by (simp only: page_step.simps settled_effect Max_cursor)
  qed
qed

text \<open>The cursors that the calls of \<^verbatim>\<open>getNotifications\<close> were made with.\<close>

lemma page_invariant:
  "\<exists>cs. polled (page_run acts)
          = map (\<lambda>c. \<lparr> np_since_id = Some (Whole c), np_unread_only = Some True,
                        np_limit = Some (Whole 10) \<rparr>) cs
      \<and> sorted cs
      \<and> (\<forall>c\<in>set cs. c \<le> lastNotificationId (page_run acts))
      \<and> (\<forall>i\<in>set (shown (page_run acts)). i \<le> lastNotificationId (page_run acts))
      \<and> 0 \<le> lastNotificationId (page_run acts)"
proof (induction acts rule: rev_induct)
  case Nil
  show ?case by (simp add: page_run_def page_initial_def)
next
  case (snoc a acts)
  let ?st = "page_run acts"
  have run: "page_run (acts @ [a]) = page_step ?st a" by (simp add: page_run_def)
  from snoc obtain cs where cs: "polled ?st
          = map (\<lambda>c. \<lparr> np_since_id = Some (Whole c), np_unread_only = Some True,
                        np_limit = Some (Whole 10) \<rparr>) cs"
      "sorted cs" "\<forall>c\<in>set cs. c \<le> lastNotificationId ?st"
      "\<forall>i\<in>set (shown ?st). i \<le> lastNotificationId ?st" "0 \<le> lastNotificationId ?st"
    by blast
  show ?case
  proof (cases a)
    case TimerFires
    have "polled (page_step ?st a)
          = map (\<lambda>c. \<lparr> np_since_id = Some (Whole c), np_unread_only = Some True,
                        np_limit = Some (Whole 10) \<rparr>) (cs @ [lastNotificationId ?st])"
      using cs(1) TimerFires by (simp add: pollNotifications_def)
    moreover have "sorted (cs @ [lastNotificationId ?st])"
      using cs(2,3) by (simp add: sorted_append)
    moreover have "lastNotificationId (page_step ?st a) = lastNotificationId ?st"
      "shown (page_step ?st a) = shown ?st"
      using TimerFires by (simp_all add: pollNotifications_def)
    ultimately show ?thesis unfolding run using cs(3,4,5)
      by (intro exI[of _ "cs @ [lastNotificationId ?st]"]) auto
  next
    case (Answered outcome)
    show ?thesis
    proof (cases outcome)
      case (Inl e)
      with Answered cs show ?thesis unfolding run by (auto simp add: settled_error)
    next
      case (Inr ns)
      let ?new = "lastNotificationId (notifications_settled (Inr ns) ?st)"
      have mono: "lastNotificationId ?st \<le> ?new"
        by (simp only: settled_effect Max_cursor)
      have titled: "\<forall>n\<in>set ns. truthy (n_title n) \<longrightarrow> n_id n \<le> ?new"
      proof (intro ballI impI)
        fix n assume n: "n \<in> set ns" "truthy (n_title n)"
        show "n_id n \<le> ?new"
        proof (cases "n_id n = 0")
          case True
          with cs(5) mono show ?thesis by simp
        next
          case False
          with n have "n_id n \<in> set (map n_id (filter (\<lambda>n. truthy (n_title n) \<and> n_id n \<noteq> 0) ns))"
            by auto
          with Max_cursor(2)[of "map n_id (filter (\<lambda>n. truthy (n_title n) \<and> n_id n \<noteq> 0) ns)"
              "lastNotificationId ?st"]
          have "n_id n \<le> foldl max (lastNotificationId ?st)
              (map n_id (filter (\<lambda>n. truthy (n_title n) \<and> n_id n \<noteq> 0) ns))" by blast
          then show ?thesis by (simp only: settled_effect)
        qed
      qed
      have "polled (page_step ?st a)
          = map (\<lambda>c. \<lparr> np_since_id = Some (Whole c), np_unread_only = Some True,
                        np_limit = Some (Whole 10) \<rparr>) cs"
        using cs(1) Answered Inr by (simp add: settled_effect)
      moreover have "\<forall>c\<in>set cs. c \<le> lastNotificationId (page_step ?st a)"
        using cs(3) mono Answered Inr by auto
      moreover have "\<forall>i\<in>set (shown (page_step ?st a)). i \<le> lastNotificationId (page_step ?st a)"
        using cs(4) mono titled Answered Inr by (auto simp add: settled_effect(2))
      moreover have "0 \<le> lastNotificationId (page_step ?st a)"
        using cs(5) mono Answered Inr by simp
      ultimately show ?thesis unfolding run using cs(2) by blast
    qed
  qed
qed

lemma bus_step_ascending:
  assumes "sorted_wrt (<) (map be_id log)"
  shows "sorted_wrt (<) (map be_id (bus_step log ev))"
proof (cases ev)
  case (Publish kind msg now)
  show ?thesis
  proof (cases "log = []")
    case True
    with Publish show ?thesis by (simp add: publish_def)
  next
    case False
    have "\<forall>x\<in>set (map be_id log). x < be_id (last log) + 1"
    proof
      fix x assume "x \<in> set (map be_id log)"
      then obtain e where e: "e \<in> set log" "x = be_id e" by auto
      from False have l: "log = butlast log @ [last log]" by simp
      show "x < be_id (last log) + 1"
      proof (cases "e = last log")
        case True
        with e show ?thesis by simp
      next
        case neq: False
        with e(1) l have "e \<in> set (butlast log)"
          by (metis Un_iff empty_iff empty_set set_ConsD set_append)
        moreover from assms l have "sorted_wrt (<) (map be_id (butlast log @ [last log]))"
          by simp
        ultimately have "be_id e < be_id (last log)"
          by (simp add: sorted_wrt_append)
        with e show ?thesis by simp
      qed
    qed
    with assms False Publish show ?thesis
      by (simp add: publish_def Let_def sorted_wrt_append)
  qed
next
  case (MarkRead i)
  have "map be_id (mark_read log i) = map be_id log"
    by (induction log) (simp_all add: mark_read_def)
  with assms MarkRead show ?thesis by simp
next
  case MarkAllRead
  have "map be_id (mark_all_read log) = map be_id log"
    by (induction log) (simp_all add: mark_all_read_def)
  with assms MarkAllRead show ?thesis by simp
qed

lemma bus_run_ascending: "sorted_wrt (<) (map be_id (bus_run events))"
proof (induction events rule: rev_induct)
  case Nil
  show ?case by (simp add: bus_run_def)
next
  case (snoc ev events)
  from bus_step_ascending[OF snoc] show ?case by (simp add: bus_run_def)
qed

lemma sorted_wrt_take_filter:
  "sorted_wrt R (map f xs) \<Longrightarrow> sorted_wrt R (map f (take n (filter P xs)))"
proof (induction xs arbitrary: n)
  case Nil
  then show ?case by simp
next
  case (Cons x xs)
  from Cons.prems have tl: "sorted_wrt R (map f xs)" and hd: "\<forall>y\<in>set xs. R (f x) (f y)"
    by simp_all
  show ?case
  proof (cases "P x")
    case False
    with Cons.IH[OF tl] show ?thesis by simp
  next
    case True
    show ?thesis
    proof (cases n)
      case 0
      then show ?thesis by simp
    next
      case (Suc m)
      have "set (take m (filter P xs)) \<subseteq> set xs"
        by (meson filter_is_subset order_trans set_take_subset)
      with hd have "\<forall>y\<in>set (take m (filter P xs)). R (f x) (f y)" by blast
      with True Suc Cons.IH[OF tl, of m] show ?thesis by simp
    qed
  qed
qed

lemma list_notifications_ascending:
  "sorted_wrt (<) (map be_id (list_notifications (bus_run events) since_id unread_only limit))"
  unfolding list_notifications_def
  by (rule sorted_wrt_take_filter) (rule bus_run_ascending)

text \<open>The equations that evaluate a run of the poller on given answers.\<close>

lemmas page_eval =
  page_run_def page_initial_def pollNotifications_def notifications_settled_def Let_def
  show_notification_def mock_notifications_def js_or_def notification_variant_def

text \<open>
  C7, as stated, fails. With the mock configured, every call is answered with the same
  notification, number 1, which has no title: it is never displayed, the last-seen id stays
  0, and the next call asks for the ids above 0 again and receives it again. And when the
  timer fires before the last call was answered, both calls ask for the ids above 0; a
  notification with a title that both answers hold is displayed twice.
\<close>

theorem notification_requested_again_counterexample:
  "map np_since_id (polled (page_run [TimerFires, Answered (Inr mock_notifications), TimerFires,
        Answered (Inr mock_notifications)]))
     = [Some (Whole 0), Some (Whole 0)]
   \<and> lastNotificationId (page_run [TimerFires, Answered (Inr mock_notifications), TimerFires,
        Answered (Inr mock_notifications)]) = 0
   \<and> shown (page_run [TimerFires, Answered (Inr mock_notifications), TimerFires,
        Answered (Inr mock_notifications)]) = []
   \<and> marked (page_run [TimerFires, Answered (Inr mock_notifications), TimerFires,
        Answered (Inr mock_notifications)]) = [1, 1]
   \<and> map np_since_id (polled (page_run [TimerFires, TimerFires, Answered (Inr [titled_1]),
        Answered (Inr [titled_1])]))
     = [Some (Whole 0), Some (Whole 0)]
   \<and> shown (page_run [TimerFires, TimerFires, Answered (Inr [titled_1]),
        Answered (Inr [titled_1])]) = [1, 1]
   \<and> page_toasts (page_run [TimerFires, TimerFires, Answered (Inr [titled_1]),
        Answered (Inr [titled_1])])
     = [\<lparr> title = Str ''Batch embedded'', description = Str ''5 entries'', variant = ''default'' \<rparr>,
        \<lparr> title = Str ''Batch embedded'', description = Str ''5 entries'', variant = ''default'' \<rparr>]"
proof -
  have a: "map np_since_id (polled (page_run [TimerFires, Answered (Inr mock_notifications), TimerFires,
        Answered (Inr mock_notifications)]))
     = [Some (Whole 0), Some (Whole 0)]"
    by (simp add: page_eval)
  have b: "lastNotificationId (page_run [TimerFires, Answered (Inr mock_notifications), TimerFires,
        Answered (Inr mock_notifications)]) = 0"
    by (simp add: page_eval)
  have c: "shown (page_run [TimerFires, Answered (Inr mock_notifications), TimerFires,
        Answered (Inr mock_notifications)]) = []"
    by (simp add: page_eval)
  have d: "marked (page_run [TimerFires, Answered (Inr mock_notifications), TimerFires,
        Answered (Inr mock_notifications)]) = [1, 1]"
    by (simp add: page_eval)
  have e: "map np_since_id (polled (page_run [TimerFires, TimerFires, Answered (Inr [titled_1]),
        Answered (Inr [titled_1])]))
     = [Some (Whole 0), Some (Whole 0)]"
    by (simp add: page_eval)
  have f: "shown (page_run [TimerFires, TimerFires, Answered (Inr [titled_1]),
        Answered (Inr [titled_1])]) = [1, 1]"
    by (simp add: page_eval)
  have g: "page_toasts (page_run [TimerFires, TimerFires, Answered (Inr [titled_1]),
        Answered (Inr [titled_1])])
     = [\<lparr> title = Str ''Batch embedded'', description = Str ''5 entries'', variant = ''default'' \<rparr>,
        \<lparr> title = Str ''Batch embedded'', description = Str ''5 entries'', variant = ''default'' \<rparr>]"
    by (simp add: page_eval)
  from a b c d e f g show ?thesis by blast
qed

text \<open>
  C7, amended. For every sequence of polls and answers: each call of the list operation
  takes the parameters \<^verbatim>\<open>since_id\<close>, the last-seen id at the moment of the call,
  \<^verbatim>\<open>unread_only\<close> = true and \<^verbatim>\<open>limit\<close> = 10, and the list operation of the bus
  returns its notifications in ascending id order. The last-seen id never decreases: an
  answer moves it to the largest id among its notifications that have a title and an id
  other than 0, if that is larger. So the cursors of the calls made so far are ascending,
  and every id displayed so far is at most the last-seen id, which the next call asks
  above. The notifications of an answer that have a title are displayed, all of them and in
  the order of the answer, also one that was displayed before; one without a title is not
  displayed and does not move the last-seen id. Every notification of an answer with an id
  other than 0 is marked read; an answer that is an error changes nothing.
\<close>

theorem notification_cursor_monotone:
  assumes "st = page_run acts"
  shows "polled (pollNotifications st)
           = polled st @ [\<lparr> np_since_id = Some (Whole (lastNotificationId st)), np_unread_only = Some True, np_limit = Some (Whole 10) \<rparr>]
       \<and> getNotifications_searchParams
            (Some \<lparr> np_since_id = Some (Whole (lastNotificationId st)), np_unread_only = Some True, np_limit = Some (Whole 10) \<rparr>)
           = [(''since_id'', number_toString (Whole (lastNotificationId st))),
              (''unread_only'', ''true''), (''limit'', ''10'')]
       \<and> lastNotificationId st \<le> lastNotificationId (page_step st a)
       \<and> lastNotificationId (notifications_settled (Inr ns) st)
           = foldl max (lastNotificationId st)
               (map n_id (filter (\<lambda>n. truthy (n_title n) \<and> n_id n \<noteq> 0) ns))
       \<and> shown (notifications_settled (Inr ns) st)
           = shown st @ map n_id (filter (\<lambda>n. truthy (n_title n)) ns)
       \<and> page_toasts (notifications_settled (Inr ns) st)
           = page_toasts st
             @ map (\<lambda>n. \<lparr> title = n_title n,
                         description = (if truthy (n_message n) then n_message n else Str []),
                         variant = (if n_status n = Str ''error'' then ''destructive''
                                    else ''default'') \<rparr>)
                 (filter (\<lambda>n. truthy (n_title n)) ns)
       \<and> marked (notifications_settled (Inr ns) st)
           = marked st @ map n_id (filter (\<lambda>n. n_id n \<noteq> 0) ns)
       \<and> notifications_settled (Inl e) st = st
       \<and> (\<forall>i\<in>set (shown st). i \<le> lastNotificationId st)
       \<and> (\<exists>cs. polled st
                  = map (\<lambda>c. \<lparr> np_since_id = Some (Whole c), np_unread_only = Some True,
                                np_limit = Some (Whole 10) \<rparr>) cs
              \<and> sorted cs \<and> (\<forall>c\<in>set cs. c \<le> lastNotificationId st))
       \<and> sorted_wrt (<)
            (map be_id (list_notifications (bus_run events) since_id unread_only limit))"
proof -
  have call: "polled (pollNotifications st)
           = polled st @ [\<lparr> np_since_id = Some (Whole (lastNotificationId st)), np_unread_only = Some True, np_limit = Some (Whole 10) \<rparr>]"
    by (simp add: pollNotifications_def)
  have ten: "number_toString (Whole 10) = ''10''" by code_simp
  have prm: "getNotifications_searchParams
            (Some \<lparr> np_since_id = Some (Whole (lastNotificationId st)), np_unread_only = Some True, np_limit = Some (Whole 10) \<rparr>)
           = [(''since_id'', number_toString (Whole (lastNotificationId st))),
              (''unread_only'', ''true''), (''limit'', ''10'')]"
    using ten by (simp add: getNotifications_searchParams_def append_def
        del: number_toString.simps)
  note mono = page_step_cursor[of st a]
  note eff = settled_effect(1-4)[of ns st]
  note err = settled_error[of e st]
  from page_invariant[of acts] assms
  have inv: "\<forall>i\<in>set (shown st). i \<le> lastNotificationId st"
    "\<exists>cs. polled st
                  = map (\<lambda>c. \<lparr> np_since_id = Some (Whole c), np_unread_only = Some True,
                                np_limit = Some (Whole 10) \<rparr>) cs
              \<and> sorted cs \<and> (\<forall>c\<in>set cs. c \<le> lastNotificationId st)"
    by blast+
  note bus = list_notifications_ascending[of events since_id unread_only limit]
  from call prm mono eff err inv bus show ?thesis by blast
qed

theorem notification_cursor_monotone_witness:
  "lastNotificationId (notifications_settled
      (Inr [titled_3, untitled_5, failed_4])
      (page_run [TimerFires])) = 4
   \<and> shown (notifications_settled
      (Inr [titled_3, untitled_5, failed_4])
      (page_run [TimerFires])) = [3, 4]
   \<and> page_toasts (notifications_settled
      (Inr [titled_3, untitled_5, failed_4])
      (page_run [TimerFires]))
     = [\<lparr> title = Str ''Batch embedded'', description = Str ''5 entries'', variant = ''default'' \<rparr>,
        \<lparr> title = Str ''Batch failed'', description = Str [], variant = ''destructive'' \<rparr>]
   \<and> marked (notifications_settled
      (Inr [titled_3, untitled_5, failed_4])
      (page_run [TimerFires])) = [3, 5, 4]
   \<and> polled (pollNotifications (page_run [TimerFires,
        Answered (Inr [titled_3, untitled_5, failed_4])]))
     = [\<lparr> np_since_id = Some (Whole 0), np_unread_only = Some True, np_limit = Some (Whole 10) \<rparr>,
        \<lparr> np_since_id = Some (Whole 4), np_unread_only = Some True, np_limit = Some (Whole 10) \<rparr>]
   \<and> getNotifications_searchParams
        (Some \<lparr> np_since_id = Some (Whole 4), np_unread_only = Some True, np_limit = Some (Whole 10) \<rparr>)
     = [(''since_id'', ''4''), (''unread_only'', ''true''), (''limit'', ''10'')]
   \<and> map be_id (list_notifications (bus_run [Publish ''batch_completed'' ''5 entries'' 100, Publish ''batch_failed'' ''timeout'' 101,
        MarkRead 1, Publish ''batch_completed'' ''2 entries'' 102]) 0 True 10) = [2, 3]
   \<and> sorted_wrt (<) (map be_id (list_notifications (bus_run [Publish ''batch_completed'' ''5 entries'' 100, Publish ''batch_failed'' ''timeout'' 101,
        MarkRead 1, Publish ''batch_completed'' ''2 entries'' 102]) 0 True 10))"
proof -
  let ?ns = "[titled_3, untitled_5, failed_4]"
  let ?first = "page_run [TimerFires]"
  let ?second = "page_run [TimerFires, Answered (Inr ?ns)]"
  have f: "lastNotificationId ?first = 0" "shown ?first = []" "page_toasts ?first = []"
    "marked ?first = []"
    by (simp_all add: page_run_def page_initial_def pollNotifications_def)
  have step: "?second = notifications_settled (Inr ?ns) ?first"
    by (simp add: page_run_def)
  note one = notification_cursor_monotone[OF refl, of "[TimerFires]" _ ?ns]
  from one have a: "lastNotificationId (notifications_settled (Inr ?ns) ?first)
      = foldl max (lastNotificationId ?first)
               (map n_id (filter (\<lambda>n. truthy (n_title n) \<and> n_id n \<noteq> 0) ?ns))" by blast
  from one have b: "shown (notifications_settled (Inr ?ns) ?first)
      = shown ?first @ map n_id (filter (\<lambda>n. truthy (n_title n)) ?ns)" by blast
  from one have c: "page_toasts (notifications_settled (Inr ?ns) ?first)
      = page_toasts ?first
             @ map (\<lambda>n. \<lparr> title = n_title n,
                         description = (if truthy (n_message n) then n_message n else Str []),
                         variant = (if n_status n = Str ''error'' then ''destructive''
                                    else ''default'') \<rparr>)
                 (filter (\<lambda>n. truthy (n_title n)) ?ns)" by blast
  from one have d: "marked (notifications_settled (Inr ?ns) ?first)
      = marked ?first @ map n_id (filter (\<lambda>n. n_id n \<noteq> 0) ?ns)" by blast
  from a f have a': "lastNotificationId (notifications_settled (Inr ?ns) ?first) = 4" by simp
  from b f have b': "shown (notifications_settled (Inr ?ns) ?first) = [3, 4]" by simp
  from c f have c': "page_toasts (notifications_settled (Inr ?ns) ?first)
     = [\<lparr> title = Str ''Batch embedded'', description = Str ''5 entries'', variant = ''default'' \<rparr>,
        \<lparr> title = Str ''Batch failed'', description = Str [], variant = ''destructive'' \<rparr>]" by simp
  from d f have d': "marked (notifications_settled (Inr ?ns) ?first) = [3, 5, 4]" by simp
  note two = notification_cursor_monotone[OF refl, of "[TimerFires, Answered (Inr ?ns)]" _ "[]" _
      "[Publish ''batch_completed'' ''5 entries'' 100, Publish ''batch_failed'' ''timeout'' 101,
        MarkRead 1, Publish ''batch_completed'' ''2 entries'' 102]" 0 True 10]
  have p: "polled ?second = [\<lparr> np_since_id = Some (Whole 0), np_unread_only = Some True, np_limit = Some (Whole 10) \<rparr>]"
    by (simp add: page_run_def page_initial_def pollNotifications_def settled_effect)
  have four: "number_toString (Whole 4) = ''4''" by code_simp
  from two have e: "polled (pollNotifications ?second)
      = polled ?second @ [\<lparr> np_since_id = Some (Whole (lastNotificationId ?second)),
                             np_unread_only = Some True, np_limit = Some (Whole 10) \<rparr>]" by blast
  from two have g: "getNotifications_searchParams
        (Some \<lparr> np_since_id = Some (Whole (lastNotificationId ?second)),
                np_unread_only = Some True, np_limit = Some (Whole 10) \<rparr>)
      = [(''since_id'', number_toString (Whole (lastNotificationId ?second))),
         (''unread_only'', ''true''), (''limit'', ''10'')]" by blast
  from two have h: "sorted_wrt (<)
      (map be_id (list_notifications (bus_run [Publish ''batch_completed'' ''5 entries'' 100, Publish ''batch_failed'' ''timeout'' 101,
        MarkRead 1, Publish ''batch_completed'' ''2 entries'' 102]) 0 True 10))" by blast
  have cur: "lastNotificationId ?second = 4" unfolding step by (rule a')
  from e p cur have e': "polled (pollNotifications ?second)
     = [\<lparr> np_since_id = Some (Whole 0), np_unread_only = Some True, np_limit = Some (Whole 10) \<rparr>,
        \<lparr> np_since_id = Some (Whole 4), np_unread_only = Some True, np_limit = Some (Whole 10) \<rparr>]" by simp
  from g cur four have g': "getNotifications_searchParams
        (Some \<lparr> np_since_id = Some (Whole 4), np_unread_only = Some True, np_limit = Some (Whole 10) \<rparr>)
     = [(''since_id'', ''4''), (''unread_only'', ''true''), (''limit'', ''10'')]"
    by (simp del: number_toString.simps)
  have ids: "map be_id (list_notifications (bus_run [Publish ''batch_completed'' ''5 entries'' 100, Publish ''batch_failed'' ''timeout'' 101,
        MarkRead 1, Publish ''batch_completed'' ''2 entries'' 102]) 0 True 10) = [2, 3]"
    by (simp add: bus_run_def publish_def mark_read_def list_notifications_def Let_def)
  from a' b' c' d' e' g' ids h show ?thesis by blast
qed

end
